theory Spec2Isabelle
  imports Main "HOL-Library.Word" "HOL-Library.Sublist"
begin

section \<open>Signature.cpp of pybdoc: XAdES signature validation\<close>

text \<open>
  A shallow embedding of \<^verbatim>\<open>ivote-server/pybdoc/src/Signature.cpp\<close>: the classes
  \<^verbatim>\<open>SignatureValidator\<close>, \<^verbatim>\<open>Signature\<close>, \<^verbatim>\<open>XAdES111Signature\<close> and
  \<^verbatim>\<open>XAdES132Signature\<close>. Every function returns \<open>error + 'a\<close>; \<open>Inl\<close> is an exception
  or undefined behaviour, \<open>Inr\<close> a normal return. Collaborators whose code is not part of
  the file (Digest, X509Cert, OCSP, Configuration, ContainerInfo, Xerces, XML-Security)
  are parameters, collected in records of functions.
\<close>

subsection \<open>Exceptions and undefined behaviour\<close>

text \<open>
  Each constructor of \<open>msg\<close> is one message of a \<^verbatim>\<open>THROW_STACK_EXCEPTION\<close> of the file
  (format arguments left out):
  \<^item> \<open>FailedToFindOcspResponder\<close>: "Failed to find ocsp responder."
  \<^item> \<open>FailedToLoadIssuerCertificate\<close>: "Failed to load issuer certificate."
  \<^item> \<open>NonceFieldMismatch\<close>: "Calculated signature hash doesn't match to OCSP responder nonce field"
  \<^item> \<open>OCSPRefValueMismatch\<close>: "OCSPRef value doesn't match with hash of OCSP response"
  \<^item> \<open>ObjectMissing\<close>: "Signature block 'Object' is missing."
  \<^item> \<open>MoreThanOneObject\<close>: "Signature block contains more than one 'Object' block."
  \<^item> \<open>QualifyingPropertiesMissing\<close>: "Signature block 'QualifyingProperties' is missing."
  \<^item> \<open>MoreThanOneQualifyingProperties\<close>: "Signature block 'Object' contains more than one
    'QualifyingProperties' block."
  \<^item> \<open>FailedToParseSignatureXML\<close>: "Failed to parse signature XML"
  \<^item> \<open>SignatureIsInvalid\<close>: "Signature is invalid"
  \<^item> \<open>CouldNotFindNode\<close>: "Could not find '%s' node which is in '%s' namespace in signature XML."
  \<^item> \<open>FoundSeveralNodes\<close>: "Found %d '%s' nodes which are in '%s' namespace in signature XML,
    can not calculate digest on XML node."
  \<^item> \<open>UnsupportedCanonicalizationMethod\<close>: "Unsupported SignedInfo canonicalization method '%s'"
  \<^item> \<open>NoSignerCertificate\<close>: "Signature does not contain signer certificate"
  \<^item> \<open>MoreThanOneSignerCertificate\<close>: "Signature contains more than one signer certificate"
  \<^item> \<open>IdMissing\<close>: "Signature element mandatory attribute 'Id' is missing"
  \<^item> \<open>IdEmpty\<close>: "Signature element mandatory attribute 'Id' is empty"
  \<^item> \<open>UnsupportedSignatureMethod\<close>: "Unsupported SignedInfo signature method"
  \<^item> \<open>InvalidNumberOfReferences\<close>: "Number of references in SignedInfo is invalid: found %d,
    expected %d"
  \<^item> \<open>MoreThanOneSignedPropertiesRef\<close>: "SignedInfo element refers to more than one
    SignedProperties"
  \<^item> \<open>NoSignedPropertiesRef\<close>: "SignedInfo does not contain reference to SignedProperties"
  \<^item> \<open>UnableToVerifySigningCertificate\<close>: "Unable to verify signing certificate %s"
  \<^item> \<open>SigPropsRefNoURI\<close>: "SignedInfo reference to SignedProperties does not have attribute 'URI'"
  \<^item> \<open>SigPropsDigestMethodUnsupported\<close>: "reference to SignedProperties digest method algorithm
    '%s' is not supported"
  \<^item> \<open>SigPropsDigestLengthMismatch\<close>: "SignedProperties digest lengths do not match"
  \<^item> \<open>SigPropsDigestValueMismatch\<close>: "SignedProperties digest values do not match"
  \<^item> \<open>DocRefNoURI\<close>: "Document reference is missing attribute 'URI'"
  \<^item> \<open>DocRefsDidNotMatch\<close>: "Document references didn't match"
  \<^item> \<open>CouldNotExtractHashMethod\<close>: "Couldn't extract hash method from signature method URI '%s'."
  \<^item> \<open>SignatureNotValid\<close>: "Signature is not valid."
  \<^item> \<open>MissingUnsignedProperties\<close>: "Missing UnsignedProperties"
  \<^item> \<open>UnsignedSignaturePropertiesMissing\<close>: "Unsigned signature properties missing"
  \<^item> \<open>RevocationValuesMissing\<close>: "Revocation values missing"
  \<^item> \<open>MissingDigestAlgAndValue\<close>: "Missing UnsignedProperties/UnsignedSignatureProperties/
    CompleteRevocationRefs/OCSPRefs/OCSPRef/DigestAlgAndValue element"
  \<^item> \<open>NumberOfObjectsNot1\<close>: "Number of Objects is %d, must be 1"
  \<^item> \<open>NumberOfQualifyingPropertiesNot1\<close>: "Number of QualifyingProperties is %d, must be 1"
  \<^item> \<open>SignedPropertiesNotFound\<close>: "SignedProperties not found"
  \<^item> \<open>SigningCertificateNotFound\<close>: "SigningCertificate not found"
  \<^item> \<open>NumberOfSigningCertificatesNot1\<close>: "Number of SigningCertificates is %d, must be 1"
  \<^item> \<open>UnsupportedCertDigestAlgorithm\<close>: "Unsupported digest algorithm  %s for signing certificate"
  \<^item> \<open>IssuerInformationInvalid\<close>: "Signing certificate issuer information invalid"
  \<^item> \<open>WrongCertDigestLength\<close>: "Wrong length for signing certificate digest"
  \<^item> \<open>CertDigestMismatch\<close>: "Signing certificate digest does not match"
  \<^item> \<open>SignedPropertiesMissing\<close>: "QualifyingProperties block 'SignedProperties' is missing."
  \<^item> \<open>SignaturePolicyNotValid\<close>: "Signature policy is not valid"
  \<^item> \<open>TargetIsNotSignature\<close>: "QualifyingProperties target is not Signature"
  \<^item> \<open>UnexpectedUnsignedDataObjectProperties\<close>: "unexpected UnsignedDataObjectProperties in
    Signature"
  \<^item> \<open>Collaborator n\<close>: a stack exception thrown inside a collaborator.
\<close>

datatype msg =
    FailedToFindOcspResponder
  | FailedToLoadIssuerCertificate
  | NonceFieldMismatch
  | OCSPRefValueMismatch
  | ObjectMissing
  | MoreThanOneObject
  | QualifyingPropertiesMissing
  | MoreThanOneQualifyingProperties
  | FailedToParseSignatureXML
  | SignatureIsInvalid
  | CouldNotFindNode
  | FoundSeveralNodes
  | UnsupportedCanonicalizationMethod
  | NoSignerCertificate
  | MoreThanOneSignerCertificate
  | IdMissing
  | IdEmpty
  | UnsupportedSignatureMethod
  | InvalidNumberOfReferences
  | MoreThanOneSignedPropertiesRef
  | NoSignedPropertiesRef
  | UnableToVerifySigningCertificate
  | SigPropsRefNoURI
  | SigPropsDigestMethodUnsupported
  | SigPropsDigestLengthMismatch
  | SigPropsDigestValueMismatch
  | DocRefNoURI
  | DocRefsDidNotMatch
  | CouldNotExtractHashMethod
  | SignatureNotValid
  | MissingUnsignedProperties
  | UnsignedSignaturePropertiesMissing
  | RevocationValuesMissing
  | MissingDigestAlgAndValue
  | NumberOfObjectsNot1
  | NumberOfQualifyingPropertiesNot1
  | SignedPropertiesNotFound
  | SigningCertificateNotFound
  | NumberOfSigningCertificatesNot1
  | UnsupportedCertDigestAlgorithm
  | IssuerInformationInvalid
  | WrongCertDigestLength
  | CertDigestMismatch
  | SignedPropertiesMissing
  | SignaturePolicyNotValid
  | TargetIsNotSignature
  | UnexpectedUnsignedDataObjectProperties
  | Collaborator nat

text \<open>
  \<open>StackException m causes\<close> is a \<^verbatim>\<open>StackExceptionBase\<close> with its message and the
  exceptions added to it. The other constructors are not stack exceptions, and no
  \<^verbatim>\<open>catch (StackExceptionBase&)\<close> stops them:
  \<^item> \<open>AbsentOptional\<close>: \<^verbatim>\<open>get()\<close> or \<^verbatim>\<open>operator->\<close> on an optional of the schema
    binding that is not \<^verbatim>\<open>present()\<close>, which dereferences a null pointer (undefined
    behaviour);
  \<^item> \<open>IndexOutOfRange\<close>: \<^verbatim>\<open>operator[]\<close> of a sequence at or beyond its size (undefined
    behaviour);
  \<^item> \<open>StdOutOfRange\<close>: the \<^verbatim>\<open>std::out_of_range\<close> of \<^verbatim>\<open>std::string::substr\<close>.
\<close>

datatype error =
    StackException msg "error list"
  | AbsentOptional
  | IndexOutOfRange
  | StdOutOfRange

fun isStackException :: "error \<Rightarrow> bool" where
  "isStackException (StackException m cs) = True"
| "isStackException e = False"

definition throw :: "msg \<Rightarrow> error + 'a" where
  "throw m = Inl (StackException m [])"

text \<open>Sequencing of fallible steps: the first exception ends the function.\<close>

definition bind :: "error + 'a \<Rightarrow> ('a \<Rightarrow> error + 'b) \<Rightarrow> error + 'b" where
  "bind r f = (case r of Inl e \<Rightarrow> Inl e | Inr v \<Rightarrow> f v)"

text \<open>The accessors of the schema binding: \<^verbatim>\<open>optional::get\<close> and \<^verbatim>\<open>sequence::operator[]\<close>.\<close>

definition get :: "'a option \<Rightarrow> error + 'a" where
  "get x = (case x of None \<Rightarrow> Inl AbsentOptional | Some v \<Rightarrow> Inr v)"

definition at :: "'a list \<Rightarrow> nat \<Rightarrow> error + 'a" where
  "at xs i = (if i < length xs then Inr (xs ! i) else Inl IndexOutOfRange)"

subsection \<open>std::string\<close>

type_synonym bytes = "8 word list"

text \<open>\<^verbatim>\<open>size_t\<close> has 64 bits; \<^verbatim>\<open>std::string::npos\<close> is its largest value.\<close>

definition npos :: nat where
  "npos = 2 ^ 64 - 1"

definition occurs_at :: "string \<Rightarrow> string \<Rightarrow> nat \<Rightarrow> bool" where
  "occurs_at s pat i = (i + length pat \<le> length s \<and> take (length pat) (drop i s) = pat)"

text \<open>\<^verbatim>\<open>s.find(pat, pos)\<close>: the least position from \<open>pos\<close> on where \<open>pat\<close> occurs, or npos.\<close>

definition str_find :: "string \<Rightarrow> string \<Rightarrow> nat \<Rightarrow> nat" where
  "str_find s pat pos =
     (case List.find (occurs_at s pat) [pos ..< Suc (length s)] of
        None \<Rightarrow> npos | Some i \<Rightarrow> i)"

text \<open>\<^verbatim>\<open>s.rfind(pat)\<close>: the greatest position where \<open>pat\<close> occurs, or npos.\<close>

definition str_rfind :: "string \<Rightarrow> string \<Rightarrow> nat" where
  "str_rfind s pat =
     (case List.find (occurs_at s pat) (rev [0 ..< Suc (length s)]) of
        None \<Rightarrow> npos | Some i \<Rightarrow> i)"

text \<open>
  \<^verbatim>\<open>s.substr(pos, n)\<close> throws when \<open>pos\<close> is beyond the size and cuts \<open>n\<close> to what
  is left of the string.
\<close>

definition substr :: "string \<Rightarrow> nat \<Rightarrow> nat \<Rightarrow> error + string" where
  "substr s pos n = (if length s < pos then Inl StdOutOfRange else Inr (take n (drop pos s)))"

text \<open>
  Conversions and arithmetic of \<^verbatim>\<open>size_t\<close>: an int becomes a \<^verbatim>\<open>size_t\<close> modulo
  \<open>2^64\<close>; a \<^verbatim>\<open>size_t\<close> becomes an int (32 bits, two's complement) by its low 32 bits.
\<close>

definition size_t :: "int \<Rightarrow> nat" where
  "size_t i = nat (i mod 2 ^ 64)"

definition to_int :: "nat \<Rightarrow> int" where
  "to_int n = (let m = int n mod 2 ^ 32 in if m < 2 ^ 31 then m else m - 2 ^ 32)"

subsection \<open>The schema binding: ds:Signature\<close>

text \<open>
  The generated classes of \<^verbatim>\<open>xmldsig-core-schema.hxx\<close> and \<^verbatim>\<open>XAdES.hxx\<close>, as far as the
  file reads them. An accessor on which the file calls \<^verbatim>\<open>present()\<close> or \<^verbatim>\<open>get()\<close> is
  an option, one on which it calls \<^verbatim>\<open>empty()\<close>, \<^verbatim>\<open>size()\<close> or \<^verbatim>\<open>[i]\<close> is a list,
  any other is a required member. \<open>digestMethod\<close>, \<open>signatureMethod\<close> and
  \<open>canonicalizationMethod\<close> hold the \<^verbatim>\<open>algorithm()\<close> attribute of the element.
\<close>

record referenceType =
  uRI :: "string option"
  type_attr :: "string option"
  ref_digestMethod :: string
  ref_digestValue :: bytes

record signedInfoType =
  canonicalizationMethod :: string
  signatureMethod :: string
  reference :: "referenceType list"

record x509DataType =
  x509Certificate :: "bytes list"

record keyInfoType =
  x509Data :: "x509DataType list"

text \<open>Types that the two XAdES dialects (namespaces xades111 and xades132) share in shape.\<close>

record digestAlgAndValueType =
  digestMethod :: string
  digestValue :: bytes

record x509IssuerSerialType =
  x509IssuerName :: string
  x509SerialNumber :: int

record certIDType =
  certDigest :: digestAlgAndValueType
  issuerSerial :: x509IssuerSerialType

record certIDListType =
  cert :: "certIDType list"

record oCSPIdentifierType =
  producedAt :: string

record oCSPRefType =
  oCSPIdentifier :: oCSPIdentifierType
  digestAlgAndValue :: "digestAlgAndValueType option"

record oCSPRefsType =
  oCSPRef :: "oCSPRefType list"

record completeRevocationRefsType =
  oCSPRefs :: "oCSPRefsType option"

record oCSPValuesType =
  encapsulatedOCSPValue :: "bytes list"

record revocationValuesType =
  oCSPValues :: "oCSPValuesType option"

text \<open>
  The content of SignaturePolicyIdentifier and of UnsignedDataObjectProperties is never
  looked at; both are opaque.
\<close>

type_synonym signaturePolicyIdentifierType = string
type_synonym unsignedDataObjectPropertiesType = string

text \<open>XAdES v1.1.1 (\<^verbatim>\<open>xades111::\<close>).\<close>

record signedSignaturePropertiesType111 =
  signingCertificate111 :: certIDListType
  signaturePolicyIdentifier111 :: signaturePolicyIdentifierType

record signedPropertiesType111 =
  signedSignatureProperties111 :: signedSignaturePropertiesType111

record unsignedSignaturePropertiesType111 =
  revocationValues111 :: "revocationValuesType option"
  completeRevocationRefs111 :: "completeRevocationRefsType option"

record unsignedPropertiesType111 =
  unsignedSignatureProperties111 :: "unsignedSignaturePropertiesType111 option"
  unsignedDataObjectProperties111 :: "unsignedDataObjectPropertiesType option"

record qualifyingPropertiesType111 =
  target111 :: string
  signedProperties111 :: "signedPropertiesType111 option"
  unsignedProperties111 :: "unsignedPropertiesType111 option"

text \<open>XAdES v1.3.2 (\<^verbatim>\<open>xades132::\<close>).\<close>

record signedSignaturePropertiesType132 =
  signingCertificate132 :: "certIDListType option"
  signaturePolicyIdentifier132 :: "signaturePolicyIdentifierType option"

record signedPropertiesType132 =
  signedSignatureProperties132 :: signedSignaturePropertiesType132

record unsignedSignaturePropertiesType132 =
  revocationValues132 :: "revocationValuesType list"
  completeRevocationRefs132 :: "completeRevocationRefsType list"

record unsignedPropertiesType132 =
  unsignedSignatureProperties132 :: "unsignedSignaturePropertiesType132 option"
  unsignedDataObjectProperties132 :: "unsignedDataObjectPropertiesType option"

record qualifyingPropertiesType132 =
  target132 :: string
  signedProperties132 :: "signedPropertiesType132 option"
  unsignedProperties132 :: "unsignedPropertiesType132 option"

record objectType =
  qualifyingProperties :: "qualifyingPropertiesType132 list"
  qualifyingProperties1 :: "qualifyingPropertiesType111 list"

record signatureType =
  signedInfo :: signedInfoType
  signatureValue :: bytes
  keyInfo :: "keyInfoType option"
  object :: "objectType list"
  id_attr :: "string option"

subsection \<open>Collaborators\<close>

text \<open>
  A \<^verbatim>\<open>Digest\<close> after \<^verbatim>\<open>Digest::create(uri)\<close>: \<open>d_uri\<close> is \<^verbatim>\<open>getUri()\<close>, \<open>d_method\<close> is
  \<^verbatim>\<open>getMethod()\<close>, \<open>d_size\<close> is \<^verbatim>\<open>getSize()\<close>, and \<open>d_hash bs\<close> is \<^verbatim>\<open>getDigest()\<close>
  after \<^verbatim>\<open>update(bs)\<close>.
\<close>

record digest =
  d_uri :: string
  d_method :: int
  d_size :: nat
  d_hash :: "bytes \<Rightarrow> bytes"

text \<open>What the file reads of an \<^verbatim>\<open>X509Cert\<close>.\<close>

record x509Cert =
  issuerName :: string
  issuerNameAsn1 :: bytes
  subject :: string
  serial :: int
  encodeDER :: bytes

text \<open>\<^verbatim>\<open>OCSPConf\<close>, and the \<^verbatim>\<open>OCSP\<close> client that \<^verbatim>\<open>prepare\<close> builds from it.\<close>

record oCSPConf =
  url :: string
  conf_cert :: string
  skew :: int
  maxAge :: int

record oCSP =
  ocsp_url :: string
  ocsp_skew :: int
  ocsp_maxAge :: int
  ocsp_certs :: "x509Cert list"

text \<open>
  \<^verbatim>\<open>Configuration\<close>: \<open>getCert\<close> is \<^verbatim>\<open>getCertStore()->getCert(name)\<close>, with \<open>None\<close>
  for the null pointer.
\<close>

record configuration =
  hasOCSPConf :: "string \<Rightarrow> bool"
  getOCSPConf :: "string \<Rightarrow> oCSPConf"
  getCert :: "bytes \<Rightarrow> x509Cert option"
  getDigestURI :: string

text \<open>The settings of an \<^verbatim>\<open>XSECC14n20010315\<close> canonicalizer.\<close>

record canonicalizer =
  commentsProcessing :: bool
  useNamespaceStack :: bool
  exclusive :: "string option"
  inclusive11 :: bool

text \<open>
  The libraries and classes the file calls, with the macros of
  \<^verbatim>\<open>xsec/dsig/DSIGConstants.hpp\<close>. \<open>'dom\<close> is a Xerces document, \<open>'node\<close> a node of it,
  \<open>'store\<close> an \<^verbatim>\<open>X509_STORE\<close>, \<open>'ci\<close> the state of the \<^verbatim>\<open>ContainerInfo\<close> behind the
  pointer \<^verbatim>\<open>_bdoc\<close>.
  \<^item> \<open>uRI_ID_C14N11\<close> is \<open>None\<close> when the macro \<^verbatim>\<open>URI_ID_C14N11_NOC\<close> is not defined
    (the \<^verbatim>\<open>#ifdef\<close> of \<^verbatim>\<open>calcDigestOnNode\<close>), else the pair of \<^verbatim>\<open>URI_ID_C14N11_NOC\<close> and
    \<^verbatim>\<open>URI_ID_C14N11_COM\<close>;
  \<^item> \<open>dsig_signature\<close> is the schema-validating parser \<^verbatim>\<open>dsig::signature\<close>, \<open>None\<close> when
    it throws \<^verbatim>\<open>xml_schema::Parsing\<close> or another \<^verbatim>\<open>xsd::cxx::exception\<close>;
  \<open>xerces_parse\<close> is the \<^verbatim>\<open>XercesDOMParser\<close>, \<open>None\<close> when it throws;
  \<^item> \<open>getElementsByTagNameNS\<close> is \<open>None\<close> for the null pointer;
  \<^item> \<open>outputBuffer c dom node\<close> is all the output of the canonicalizer \<open>c\<close> made for
    \<open>node\<close>, its chunks put together;
  \<^item> \<open>compareIssuerToString\<close> is true when the names differ (the file throws on a
    non-zero result);
  \<^item> \<open>hashMethodOfSignatureMethod\<close> is \<^verbatim>\<open>XSECmapURIToSignatureMethods\<close> followed by
    \<^verbatim>\<open>hashMethod2URI\<close>, \<open>None\<close> when either fails;
  \<^item> \<open>documentCount\<close>, \<open>checkDocumentsBegin\<close>, \<open>checkDocument\<close>, \<open>checkDocumentsResult\<close>
    are the interface of \<^verbatim>\<open>ContainerInfo\<close>. \<^verbatim>\<open>BDoc.h\<close>, which declares the type that
    \<^verbatim>\<open>documentCount()\<close> returns, is not part of the file: the count is an unsigned
    integer of \<open>documentCount_bits\<close> bits (an unsigned int or a \<^verbatim>\<open>size_t\<close>), so it is
    less than \<open>2 ^ documentCount_bits\<close>.
\<close>

record ('dom, 'node, 'store, 'ci) env =
  uRI_ID_RSA_SHA1 :: string
  uRI_ID_RSA_SHA224 :: string
  uRI_ID_RSA_SHA256 :: string
  uRI_ID_C14N_NOC :: string
  uRI_ID_C14N_COM :: string
  uRI_ID_EXC_C14N_NOC :: string
  uRI_ID_C14N11 :: "(string \<times> string) option"
  digest_create :: "string \<Rightarrow> error + digest"
  digest_isSupported :: "string \<Rightarrow> bool"
  x509Cert_decode :: "bytes \<Rightarrow> error + x509Cert"
  compareIssuerToString :: "x509Cert \<Rightarrow> string \<Rightarrow> bool"
  verify :: "x509Cert \<Rightarrow> 'store \<Rightarrow> bool"
  verifySignature :: "x509Cert \<Rightarrow> int \<Rightarrow> nat \<Rightarrow> bytes \<Rightarrow> bytes \<Rightarrow> bool"
  loadX509Stack :: "string \<Rightarrow> error + x509Cert list"
  hashMethodOfSignatureMethod :: "string \<Rightarrow> string option"
  dsig_signature :: "bytes \<Rightarrow> signatureType option"
  xerces_parse :: "bytes \<Rightarrow> 'dom option"
  getElementsByTagNameNS :: "'dom \<Rightarrow> string \<Rightarrow> string \<Rightarrow> 'node list option"
  outputBuffer :: "canonicalizer \<Rightarrow> 'dom \<Rightarrow> 'node \<Rightarrow> bytes"
  verifyResponse :: "oCSP \<Rightarrow> bytes \<Rightarrow> error + unit"
  getNonce :: "oCSP \<Rightarrow> bytes \<Rightarrow> error + bytes"
  documentCount :: "'ci \<Rightarrow> nat"
  documentCount_bits :: nat
  checkDocumentsBegin :: "'ci \<Rightarrow> 'ci"
  checkDocument :: "'ci \<Rightarrow> string \<Rightarrow> string \<Rightarrow> bytes \<Rightarrow> (error + unit) \<times> 'ci"
  checkDocumentsResult :: "'ci \<Rightarrow> bool"

subsection \<open>Class Signature\<close>

text \<open>
  A \<^verbatim>\<open>Signature\<close> object: the parsed tree \<^verbatim>\<open>_sign\<close>, the buffer \<^verbatim>\<open>_xml\<close> (with
  \<^verbatim>\<open>_xml_len\<close>) and the subclass, which decides the virtual functions.
\<close>

datatype dialect = XAdES111Signature | XAdES132Signature

record signature =
  sign :: signatureType
  xml :: bytes
  dialect_of :: dialect

definition xADES111_NAMESPACE :: string where
  "xADES111_NAMESPACE = ''http://uri.etsi.org/01903/v1.1.1#''"

definition xADES132_NAMESPACE :: string where
  "xADES132_NAMESPACE = ''http://uri.etsi.org/01903/v1.3.2#''"

definition dSIG_NAMESPACE :: string where
  "dSIG_NAMESPACE = ''http://www.w3.org/2000/09/xmldsig#''"

definition xadesnamespace :: "signature \<Rightarrow> string" where
  "xadesnamespace s =
     (case dialect_of s of
        XAdES111Signature \<Rightarrow> xADES111_NAMESPACE
      | XAdES132Signature \<Rightarrow> xADES132_NAMESPACE)"

text \<open>\<^verbatim>\<open>Signature::parse\<close> (lines 275-336).\<close>

definition parse :: "('dom, 'node, 'store, 'ci) env \<Rightarrow> bytes \<Rightarrow> error + signature" where
  "parse E xml_buf =
     (case dsig_signature E xml_buf of
        None \<Rightarrow> throw FailedToParseSignatureXML
      | Some sig \<Rightarrow>
          let os = object sig in
          if os = [] then throw ObjectMissing
          else if length os \<noteq> 1 then throw MoreThanOneObject
          else
            let obj = os ! 0;
                qpSeq = qualifyingProperties obj;
                qp1Seq = qualifyingProperties1 obj
            in
            if qpSeq = [] \<and> qp1Seq = [] then throw QualifyingPropertiesMissing
            else if qpSeq = [] \<and> qp1Seq \<noteq> [] then
              (if length qp1Seq \<noteq> 1 then throw MoreThanOneQualifyingProperties
               else Inr \<lparr>sign = sig, xml = xml_buf, dialect_of = XAdES111Signature\<rparr>)
            else if qpSeq \<noteq> [] \<and> qp1Seq = [] then
              (if length qpSeq \<noteq> 1 then throw MoreThanOneQualifyingProperties
               else Inr \<lparr>sign = sig, xml = xml_buf, dialect_of = XAdES132Signature\<rparr>)
            else throw MoreThanOneQualifyingProperties)"

text \<open>\<^verbatim>\<open>Signature::getSignatureValue\<close> (lines 389-401) copies the bytes of SignatureValue.\<close>

definition getSignatureValue :: "signature \<Rightarrow> bytes" where
  "getSignatureValue s = signatureValue (sign s)"

text \<open>\<^verbatim>\<open>Signature::createDom\<close> (lines 493-531): every exception of Xerces becomes a stack exception.\<close>

definition createDom :: "('dom, 'node, 'store, 'ci) env \<Rightarrow> signature \<Rightarrow> error + 'dom" where
  "createDom E s =
     (case xerces_parse E (xml s) of
        None \<Rightarrow> throw FailedToParseSignatureXML
      | Some doc \<Rightarrow> Inr doc)"

text \<open>
  The canonicalizer of \<^verbatim>\<open>calcDigestOnNode\<close> after its construction and the calls
  \<^verbatim>\<open>setCommentsProcessing(false)\<close> and \<^verbatim>\<open>setUseNamespaceStack(true)\<close> (lines 441-443),
  then the choice of its settings by the algorithm (lines 445-478). The branches for
  C14N 1.1 are compiled only when \<^verbatim>\<open>URI_ID_C14N11_NOC\<close> is defined.
\<close>

definition defaultCanonicalizer :: canonicalizer where
  "defaultCanonicalizer =
     \<lparr>commentsProcessing = False, useNamespaceStack = True, exclusive = None,
      inclusive11 = False\<rparr>"

definition canonicalizerFor ::
  "('dom, 'node, 'store, 'ci) env \<Rightarrow> string \<Rightarrow> error + canonicalizer" where
  "canonicalizerFor E algorithmType =
     (let canon = defaultCanonicalizer in
      if algorithmType = uRI_ID_C14N_NOC E then Inr canon
      else if algorithmType = uRI_ID_C14N_COM E then
        Inr (canon\<lparr>commentsProcessing := True\<rparr>)
      else if algorithmType = uRI_ID_EXC_C14N_NOC E then
        Inr (canon\<lparr>exclusive := Some ''ds''\<rparr>)
      else
        (case uRI_ID_C14N11 E of
           None \<Rightarrow> throw UnsupportedCanonicalizationMethod
         | Some (uRI_ID_C14N11_NOC, uRI_ID_C14N11_COM) \<Rightarrow>
             if algorithmType = uRI_ID_C14N11_NOC then
               Inr (canon\<lparr>inclusive11 := True\<rparr>)
             else if algorithmType = uRI_ID_C14N11_COM then
               Inr (canon\<lparr>inclusive11 := True, commentsProcessing := True\<rparr>)
             else throw UnsupportedCanonicalizationMethod))"

text \<open>\<^verbatim>\<open>Signature::calcDigestOnNode\<close> (lines 403-491).\<close>

definition calcDigestOnNode ::
  "('dom, 'node, 'store, 'ci) env \<Rightarrow> signature \<Rightarrow> digest \<Rightarrow> string \<Rightarrow> string \<Rightarrow> error + bytes" where
  "calcDigestOnNode E s calc ns tagName =
     bind (createDom E s) (\<lambda>doc.
       case getElementsByTagNameNS E doc ns tagName of
         None \<Rightarrow> throw CouldNotFindNode
       | Some nodeList \<Rightarrow>
           if length nodeList < 1 then throw CouldNotFindNode
           else if length nodeList > 1 then throw FoundSeveralNodes
           else
             bind (canonicalizerFor E (canonicalizationMethod (signedInfo (sign s))))
               (\<lambda>canon.
                  Inr (d_hash calc (outputBuffer E canon doc (nodeList ! 0)))))"

text \<open>\<^verbatim>\<open>Signature::getSigningX509CertificateType\<close> (lines 542-579).\<close>

definition getSigningX509CertificateType :: "signature \<Rightarrow> error + bytes" where
  "getSigningX509CertificateType s =
     (case keyInfo (sign s) of
        None \<Rightarrow> throw NoSignerCertificate
      | Some ki \<Rightarrow>
          let x509DataSeq = x509Data ki in
          if x509DataSeq = [] then throw NoSignerCertificate
          else if length x509DataSeq \<noteq> 1 then throw MoreThanOneSignerCertificate
          else
            let x509CertSeq = x509Certificate (hd x509DataSeq) in
            if x509CertSeq = [] then throw NoSignerCertificate
            else if length x509CertSeq \<noteq> 1 then throw MoreThanOneSignerCertificate
            else Inr (hd x509CertSeq))"

text \<open>\<^verbatim>\<open>Signature::getSigningCertificate\<close> (lines 533-540).\<close>

definition getSigningCertificate ::
  "('dom, 'node, 'store, 'ci) env \<Rightarrow> signature \<Rightarrow> error + x509Cert" where
  "getSigningCertificate E s = bind (getSigningX509CertificateType s) (x509Cert_decode E)"

text \<open>\<^verbatim>\<open>Signature::validateIdentifier\<close> (lines 581-594).\<close>

definition validateIdentifier :: "signature \<Rightarrow> error + unit" where
  "validateIdentifier s =
     (case id_attr (sign s) of
        None \<Rightarrow> throw IdMissing
      | Some i \<Rightarrow> if i = [] then throw IdEmpty else Inr ())"

text \<open>\<^verbatim>\<open>Signature::getSignatureMethodAlgorithmType\<close> (lines 608-614).\<close>

definition getSignatureMethodAlgorithmType :: "signature \<Rightarrow> string" where
  "getSignatureMethodAlgorithmType s = signatureMethod (signedInfo (sign s))"

text \<open>\<^verbatim>\<open>Signature::checkSignatureMethod\<close> (lines 616-627).\<close>

definition checkSignatureMethod ::
  "('dom, 'node, 'store, 'ci) env \<Rightarrow> signature \<Rightarrow> error + unit" where
  "checkSignatureMethod E s =
     (let algorithmType = getSignatureMethodAlgorithmType s in
      if algorithmType \<noteq> uRI_ID_RSA_SHA1 E
         \<and> algorithmType \<noteq> uRI_ID_RSA_SHA224 E
         \<and> algorithmType \<noteq> uRI_ID_RSA_SHA256 E
      then throw UnsupportedSignatureMethod
      else Inr ())"

text \<open>
  \<^verbatim>\<open>Signature::isReferenceToSigProps\<close> (lines 696-718). The right-hand side of the second
  comparison is a subtraction of \<^verbatim>\<open>size_t\<close> values.
\<close>

definition isReferenceToSigProps :: "referenceType \<Rightarrow> bool" where
  "isReferenceToSigProps refType =
     (case type_attr refType of
        None \<Rightarrow> False
      | Some typeAttr \<Rightarrow>
          str_find typeAttr ''http://uri.etsi.org/01903'' 0 = 0
          \<and> str_rfind typeAttr ''#SignedProperties''
              = size_t (int (length typeAttr) - int (length ''#SignedProperties'')))"

text \<open>
  The comparison loops of \<^verbatim>\<open>checkReferenceToSigProps\<close> and \<^verbatim>\<open>checkKeyInfo\<close>: byte \<open>i\<close>
  of both buffers for each index of the list, throwing \<open>m\<close> at the first difference.
\<close>

fun compareBytes :: "msg \<Rightarrow> bytes \<Rightarrow> bytes \<Rightarrow> nat list \<Rightarrow> error + unit" where
  "compareBytes m a b [] = Inr ()"
| "compareBytes m a b (i # is) =
     (if length a \<le> i \<or> length b \<le> i then Inl IndexOutOfRange
      else if a ! i \<noteq> b ! i then throw m
      else compareBytes m a b is)"

text \<open>\<^verbatim>\<open>Signature::checkReferenceToSigProps\<close> (lines 720-763).\<close>

definition checkReferenceToSigProps ::
  "('dom, 'node, 'store, 'ci) env \<Rightarrow> signature \<Rightarrow> referenceType \<Rightarrow> error + unit" where
  "checkReferenceToSigProps E s refType =
     (if uRI refType = None then throw SigPropsRefNoURI
      else
        let algorithm = ref_digestMethod refType in
        if \<not> digest_isSupported E algorithm then throw SigPropsDigestMethodUnsupported
        else
          let dv = ref_digestValue refType in
          bind (digest_create E (ref_digestMethod refType)) (\<lambda>calc.
          bind (calcDigestOnNode E s calc (xadesnamespace s) ''SignedProperties'')
            (\<lambda>calculatedDigestValue.
               if length calculatedDigestValue \<noteq> length dv
               then throw SigPropsDigestLengthMismatch
               else compareBytes SigPropsDigestValueMismatch dv calculatedDigestValue
                      [0 ..< length calculatedDigestValue])))"

text \<open>
  The loop of \<^verbatim>\<open>checkReferencesToDocs\<close> (lines 770-802); the container is behind a
  pointer, so its state after the calls is returned with the result.
\<close>

fun checkReferencesToDocs_loop ::
  "('dom, 'node, 'store, 'ci) env \<Rightarrow> 'ci \<Rightarrow> referenceType list \<Rightarrow> (error + unit) \<times> 'ci" where
  "checkReferencesToDocs_loop E ci [] = (Inr (), ci)"
| "checkReferencesToDocs_loop E ci (refType # rest) =
     (if \<not> isReferenceToSigProps refType then
        (case uRI refType of
           None \<Rightarrow> (throw DocRefNoURI, ci)
         | Some u \<Rightarrow>
             let docRefUri = (if u \<noteq> [] \<and> u ! 0 = CHR ''/'' then drop 1 u else u) in
             (case checkDocument E ci docRefUri (ref_digestMethod refType)
                     (ref_digestValue refType) of
                (Inl e, ci') \<Rightarrow> (Inl e, ci')
              | (Inr u, ci') \<Rightarrow> checkReferencesToDocs_loop E ci' rest))
      else checkReferencesToDocs_loop E ci rest)"

text \<open>\<^verbatim>\<open>Signature::checkReferencesToDocs\<close> (lines 765-807).\<close>

definition checkReferencesToDocs ::
  "('dom, 'node, 'store, 'ci) env \<Rightarrow> 'ci \<Rightarrow> referenceType list \<Rightarrow> (error + unit) \<times> 'ci" where
  "checkReferencesToDocs E ci refSeq =
     (case checkReferencesToDocs_loop E (checkDocumentsBegin E ci) refSeq of
        (Inl e, ci') \<Rightarrow> (Inl e, ci')
      | (Inr u, ci') \<Rightarrow>
          if \<not> checkDocumentsResult E ci' then (throw DocRefsDidNotMatch, ci')
          else (Inr (), ci'))"

text \<open>
  The loop of \<^verbatim>\<open>checkReferences\<close> (lines 644-660); the flag is \<^verbatim>\<open>gotSignatureRef\<close>.
\<close>

fun checkReferences_loop ::
  "('dom, 'node, 'store, 'ci) env \<Rightarrow> signature \<Rightarrow> bool \<Rightarrow> referenceType list \<Rightarrow> error + bool" where
  "checkReferences_loop E s gotSignatureRef [] = Inr gotSignatureRef"
| "checkReferences_loop E s gotSignatureRef (refType # rest) =
     (if isReferenceToSigProps refType then
        (if gotSignatureRef then throw MoreThanOneSignedPropertiesRef
         else
           bind (checkReferenceToSigProps E s refType)
             (\<lambda>u. checkReferences_loop E s True rest))
      else checkReferences_loop E s gotSignatureRef rest)"

text \<open>
  \<^verbatim>\<open>Signature::checkReferences\<close> (lines 629-669). In the test of line 635 the sum
  \<^verbatim>\<open>documentCount() + 1\<close> is computed in the type of the count, modulo
  \<open>2 ^ documentCount_bits\<close>: it is 0 for the largest count. It is then compared with
  \<^verbatim>\<open>refSeq.size()\<close> as an unsigned number.
\<close>

definition checkReferences ::
  "('dom, 'node, 'store, 'ci) env \<Rightarrow> signature \<Rightarrow> 'ci \<Rightarrow> (error + unit) \<times> 'ci" where
  "checkReferences E s ci =
     (let refSeq = reference (signedInfo (sign s)) in
      if length refSeq \<noteq> (documentCount E ci + 1) mod 2 ^ documentCount_bits E
      then (throw InvalidNumberOfReferences, ci)
      else
        (case checkReferences_loop E s False refSeq of
           Inl e \<Rightarrow> (Inl e, ci)
         | Inr gotSignatureRef \<Rightarrow>
             if \<not> gotSignatureRef then (throw NoSignedPropertiesRef, ci)
             else checkReferencesToDocs E ci refSeq))"

text \<open>
  \<^verbatim>\<open>Signature::checkSigningCertificate\<close> (lines 671-694); \<open>None\<close> is the null store.
\<close>

definition checkSigningCertificate ::
  "('dom, 'node, 'store, 'ci) env \<Rightarrow> signature \<Rightarrow> 'store option \<Rightarrow> error + unit" where
  "checkSigningCertificate E s store =
     bind (getSigningCertificate E s) (\<lambda>signingCert.
       case store of
         None \<Rightarrow> throw UnableToVerifySigningCertificate
       | Some st \<Rightarrow>
           if \<not> verify E signingCert st then throw UnableToVerifySigningCertificate
           else Inr ())"

text \<open>\<^verbatim>\<open>Signature::checkSignatureValue\<close> (lines 809-837).\<close>

definition checkSignatureValue ::
  "('dom, 'node, 'store, 'ci) env \<Rightarrow> signature \<Rightarrow> error + unit" where
  "checkSignatureValue E s =
     bind (getSigningCertificate E s) (\<lambda>x509.
       let algorithmUri = getSignatureMethodAlgorithmType s in
       case hashMethodOfSignatureMethod E algorithmUri of
         None \<Rightarrow> throw CouldNotExtractHashMethod
       | Some hashMethodUri \<Rightarrow>
           bind (digest_create E hashMethodUri) (\<lambda>calc.
           bind (calcDigestOnNode E s calc dSIG_NAMESPACE ''SignedInfo'') (\<lambda>digest.
             let sigValue = getSignatureValue s in
             if \<not> verifySignature E x509 (d_method calc) (d_size calc) digest sigValue
             then throw SignatureNotValid
             else Inr ())))"

subsection \<open>Class XAdES111Signature\<close>

text \<open>\<^verbatim>\<open>XAdES111Signature::unsignSigProps\<close> (lines 863-874).\<close>

definition unsignSigProps111 ::
  "signature \<Rightarrow> error + unsignedSignaturePropertiesType111 option" where
  "unsignSigProps111 s =
     bind (at (object (sign s)) 0) (\<lambda>obj.
     bind (at (qualifyingProperties1 obj) 0) (\<lambda>qp.
       case unsignedProperties111 qp of
         None \<Rightarrow> throw MissingUnsignedProperties
       | Some up \<Rightarrow> Inr (unsignedSignatureProperties111 up)))"

text \<open>
  \<^verbatim>\<open>XAdES111Signature::getOCSPResponseValue\<close> (lines 876-893); the result is what the
  function leaves in \<^verbatim>\<open>data\<close>.
\<close>

definition getOCSPResponseValue111 :: "signature \<Rightarrow> error + bytes" where
  "getOCSPResponseValue111 s =
     bind (unsignSigProps111 s) (\<lambda>usp.
       if usp = None then throw UnsignedSignaturePropertiesMissing
       else
         bind (get usp) (\<lambda>u.
           if revocationValues111 u = None then throw RevocationValuesMissing
           else
             bind (get (revocationValues111 u)) (\<lambda>t.
             bind (get (oCSPValues t)) (\<lambda>tt.
             bind (at (encapsulatedOCSPValue tt) 0) (\<lambda>resp. Inr resp)))))"

text \<open>\<^verbatim>\<open>XAdES111Signature::ocspDigestAlgorithm\<close> (lines 905-911).\<close>

definition ocspDigestAlgorithm111 :: "signature \<Rightarrow> error + string" where
  "ocspDigestAlgorithm111 s =
     bind (unsignSigProps111 s) (\<lambda>usp.
     bind (get usp) (\<lambda>u.
     bind (get (completeRevocationRefs111 u)) (\<lambda>crr.
     bind (get (oCSPRefs crr)) (\<lambda>refs.
     bind (at (oCSPRef refs) 0) (\<lambda>r.
     bind (get (digestAlgAndValue r)) (\<lambda>d. Inr (digestMethod d)))))))"

text \<open>
  The part of \<^verbatim>\<open>getRevocationOCSPRef\<close> that both classes have word for word, from the
  optional OCSPRefs on (lines 921-955 and 1199-1233): the digest value and the
  digest method of the first OCSPRef.
\<close>

definition revocationOCSPRef_of ::
  "completeRevocationRefsType \<Rightarrow> error + bytes \<times> string" where
  "revocationOCSPRef_of crr =
     (case oCSPRefs crr of
        None \<Rightarrow> throw MissingDigestAlgAndValue
      | Some ocspRefs \<Rightarrow>
          let ocspRefSeq = oCSPRef ocspRefs in
          if ocspRefSeq \<noteq> [] then
            (case digestAlgAndValue (ocspRefSeq ! 0) of
               None \<Rightarrow> throw MissingDigestAlgAndValue
             | Some digestOpt \<Rightarrow> Inr (digestValue digestOpt, digestMethod digestOpt))
          else throw MissingDigestAlgAndValue)"

text \<open>\<^verbatim>\<open>XAdES111Signature::getRevocationOCSPRef\<close> (lines 914-956).\<close>

definition getRevocationOCSPRef111 :: "signature \<Rightarrow> error + bytes \<times> string" where
  "getRevocationOCSPRef111 s =
     bind (unsignSigProps111 s) (\<lambda>usp.
     bind (get usp) (\<lambda>u.
       case completeRevocationRefs111 u of
         None \<Rightarrow> throw MissingDigestAlgAndValue
       | Some crr \<Rightarrow> revocationOCSPRef_of crr))"

text \<open>
  The part of \<^verbatim>\<open>checkKeyInfo\<close> that both classes have word for word, from the sequence
  of Cert elements on (lines 989-1038 and 1274-1323).
\<close>

definition checkKeyInfo_certs ::
  "('dom, 'node, 'store, 'ci) env \<Rightarrow> x509Cert \<Rightarrow> certIDType list \<Rightarrow> error + unit" where
  "checkKeyInfo_certs E x509 certs =
     (if length certs \<noteq> 1 then throw NumberOfSigningCertificatesNot1
      else
        let certDigestMethodAlgorithm = digestMethod (certDigest (certs ! 0)) in
        if \<not> digest_isSupported E certDigestMethodAlgorithm
        then throw UnsupportedCertDigestAlgorithm
        else
          let certIssuerName = x509IssuerName (issuerSerial (certs ! 0));
              certSerialNumber = x509SerialNumber (issuerSerial (certs ! 0))
          in
          if compareIssuerToString E x509 certIssuerName \<or> serial x509 \<noteq> certSerialNumber
          then throw IssuerInformationInvalid
          else
            let certDigestValue = digestValue (certDigest (certs ! 0)) in
            bind (digest_create E certDigestMethodAlgorithm) (\<lambda>certDigestCalc.
              let calcDigest = d_hash certDigestCalc (encodeDER x509) in
              if length certDigestValue \<noteq> d_size certDigestCalc
              then throw WrongCertDigestLength
              else compareBytes CertDigestMismatch calcDigest certDigestValue
                     [0 ..< d_size certDigestCalc]))"

text \<open>\<^verbatim>\<open>XAdES111Signature::checkKeyInfo\<close> (lines 958-1039).\<close>

definition checkKeyInfo111 ::
  "('dom, 'node, 'store, 'ci) env \<Rightarrow> signature \<Rightarrow> error + unit" where
  "checkKeyInfo111 E s =
     bind (getSigningCertificate E s) (\<lambda>x509.
       let objs = object (sign s) in
       if length objs \<noteq> 1 then throw NumberOfObjectsNot1
       else
         let qProps = qualifyingProperties1 (objs ! 0) in
         if length qProps \<noteq> 1 then throw NumberOfQualifyingPropertiesNot1
         else
           (case signedProperties111 (qProps ! 0) of
              None \<Rightarrow> throw SignedPropertiesNotFound
            | Some sigProps \<Rightarrow>
                checkKeyInfo_certs E x509
                  (cert (signingCertificate111 (signedSignatureProperties111 sigProps)))))"

text \<open>\<^verbatim>\<open>XAdES111Signature::checkSignedSignatureProperties\<close> (lines 1041-1083).\<close>

definition checkSignedSignatureProperties111 :: "signature \<Rightarrow> error + unit" where
  "checkSignedSignatureProperties111 s =
     (let os = object (sign s) in
      if os = [] then throw ObjectMissing
      else if length os \<noteq> 1 then throw MoreThanOneObject
      else
        let qpSeq = qualifyingProperties1 (os ! 0) in
        if qpSeq = [] then throw QualifyingPropertiesMissing
        else if length qpSeq \<noteq> 1 then throw MoreThanOneQualifyingProperties
        else
          (case signedProperties111 (qpSeq ! 0) of
             None \<Rightarrow> throw SignedPropertiesMissing
           | Some signedProps \<Rightarrow>
               let policyOpt =
                     signaturePolicyIdentifier111 (signedSignatureProperties111 signedProps)
               in Inr ()))"

text \<open>\<^verbatim>\<open>XAdES111Signature::checkQualifyingProperties\<close> (lines 1086-1113).\<close>

definition checkQualifyingProperties111 :: "signature \<Rightarrow> error + unit" where
  "checkQualifyingProperties111 s =
     bind (at (object (sign s)) 0) (\<lambda>obj.
       let qProps = qualifyingProperties1 obj in
       if length qProps \<noteq> 1 then throw NumberOfQualifyingPropertiesNot1
       else
         bind (get (id_attr (sign s))) (\<lambda>i.
           if target111 (qProps ! 0) \<noteq> ''#'' @ i then throw TargetIsNotSignature
           else
             bind (checkSignedSignatureProperties111 s) (\<lambda>u.
               case unsignedProperties111 (qProps ! 0) of
                 None \<Rightarrow> Inr ()
               | Some uProps \<Rightarrow>
                   if unsignedDataObjectProperties111 uProps \<noteq> None
                   then throw UnexpectedUnsignedDataObjectProperties
                   else Inr ())))"

subsection \<open>Class XAdES132Signature\<close>

text \<open>\<^verbatim>\<open>XAdES132Signature::unsignSigProps\<close> (lines 1141-1152).\<close>

definition unsignSigProps132 ::
  "signature \<Rightarrow> error + unsignedSignaturePropertiesType132 option" where
  "unsignSigProps132 s =
     bind (at (object (sign s)) 0) (\<lambda>obj.
     bind (at (qualifyingProperties obj) 0) (\<lambda>qp.
       case unsignedProperties132 qp of
         None \<Rightarrow> throw MissingUnsignedProperties
       | Some up \<Rightarrow> Inr (unsignedSignatureProperties132 up)))"

text \<open>\<^verbatim>\<open>XAdES132Signature::getOCSPResponseValue\<close> (lines 1154-1171).\<close>

definition getOCSPResponseValue132 :: "signature \<Rightarrow> error + bytes" where
  "getOCSPResponseValue132 s =
     bind (unsignSigProps132 s) (\<lambda>usp.
       if usp = None then throw UnsignedSignaturePropertiesMissing
       else
         bind (get usp) (\<lambda>u.
           if revocationValues132 u = [] then throw RevocationValuesMissing
           else
             bind (at (revocationValues132 u) 0) (\<lambda>t.
             bind (get (oCSPValues t)) (\<lambda>tt.
             bind (at (encapsulatedOCSPValue tt) 0) (\<lambda>resp. Inr resp)))))"

text \<open>\<^verbatim>\<open>XAdES132Signature::ocspDigestAlgorithm\<close> (lines 1184-1190).\<close>

definition ocspDigestAlgorithm132 :: "signature \<Rightarrow> error + string" where
  "ocspDigestAlgorithm132 s =
     bind (unsignSigProps132 s) (\<lambda>usp.
     bind (get usp) (\<lambda>u.
     bind (at (completeRevocationRefs132 u) 0) (\<lambda>crr.
     bind (get (oCSPRefs crr)) (\<lambda>refs.
     bind (at (oCSPRef refs) 0) (\<lambda>r.
     bind (get (digestAlgAndValue r)) (\<lambda>d. Inr (digestMethod d)))))))"

text \<open>\<^verbatim>\<open>XAdES132Signature::getRevocationOCSPRef\<close> (lines 1192-1234).\<close>

definition getRevocationOCSPRef132 :: "signature \<Rightarrow> error + bytes \<times> string" where
  "getRevocationOCSPRef132 s =
     bind (unsignSigProps132 s) (\<lambda>usp.
     bind (get usp) (\<lambda>u.
       let crrSeq = completeRevocationRefs132 u in
       if crrSeq \<noteq> [] then revocationOCSPRef_of (crrSeq ! 0)
       else throw MissingDigestAlgAndValue))"

text \<open>\<^verbatim>\<open>XAdES132Signature::checkKeyInfo\<close> (lines 1236-1324).\<close>

definition checkKeyInfo132 ::
  "('dom, 'node, 'store, 'ci) env \<Rightarrow> signature \<Rightarrow> error + unit" where
  "checkKeyInfo132 E s =
     bind (getSigningCertificate E s) (\<lambda>x509.
       let objs = object (sign s) in
       if length objs \<noteq> 1 then throw NumberOfObjectsNot1
       else
         let qProps = qualifyingProperties (objs ! 0) in
         if length qProps \<noteq> 1 then throw NumberOfQualifyingPropertiesNot1
         else
           (case signedProperties132 (qProps ! 0) of
              None \<Rightarrow> throw SignedPropertiesNotFound
            | Some sigProps \<Rightarrow>
                (case signingCertificate132 (signedSignatureProperties132 sigProps) of
                   None \<Rightarrow> throw SigningCertificateNotFound
                 | Some sigCert \<Rightarrow> checkKeyInfo_certs E x509 (cert sigCert))))"

text \<open>\<^verbatim>\<open>XAdES132Signature::checkSignedSignatureProperties\<close> (lines 1326-1372).\<close>

definition checkSignedSignatureProperties132 :: "signature \<Rightarrow> error + unit" where
  "checkSignedSignatureProperties132 s =
     (let os = object (sign s) in
      if os = [] then throw ObjectMissing
      else if length os \<noteq> 1 then throw MoreThanOneObject
      else
        let qpSeq = qualifyingProperties (os ! 0) in
        if qpSeq = [] then throw QualifyingPropertiesMissing
        else if length qpSeq \<noteq> 1 then throw MoreThanOneQualifyingProperties
        else
          (case signedProperties132 (qpSeq ! 0) of
             None \<Rightarrow> throw SignedPropertiesMissing
           | Some signedProps \<Rightarrow>
               let policyOpt =
                     signaturePolicyIdentifier132 (signedSignatureProperties132 signedProps)
               in
               if policyOpt \<noteq> None then throw SignaturePolicyNotValid
               else Inr ()))"

text \<open>\<^verbatim>\<open>XAdES132Signature::checkQualifyingProperties\<close> (lines 1374-1401).\<close>

definition checkQualifyingProperties132 :: "signature \<Rightarrow> error + unit" where
  "checkQualifyingProperties132 s =
     bind (at (object (sign s)) 0) (\<lambda>obj.
       let qProps = qualifyingProperties obj in
       if length qProps \<noteq> 1 then throw NumberOfQualifyingPropertiesNot1
       else
         bind (get (id_attr (sign s))) (\<lambda>i.
           if target132 (qProps ! 0) \<noteq> ''#'' @ i then throw TargetIsNotSignature
           else
             bind (checkSignedSignatureProperties132 s) (\<lambda>u.
               case unsignedProperties132 (qProps ! 0) of
                 None \<Rightarrow> Inr ()
               | Some uProps \<Rightarrow>
                   if unsignedDataObjectProperties132 uProps \<noteq> None
                   then throw UnexpectedUnsignedDataObjectProperties
                   else Inr ())))"

subsection \<open>Virtual functions of Signature\<close>

definition checkQualifyingProperties :: "signature \<Rightarrow> error + unit" where
  "checkQualifyingProperties s =
     (case dialect_of s of
        XAdES111Signature \<Rightarrow> checkQualifyingProperties111 s
      | XAdES132Signature \<Rightarrow> checkQualifyingProperties132 s)"

definition checkKeyInfo ::
  "('dom, 'node, 'store, 'ci) env \<Rightarrow> signature \<Rightarrow> error + unit" where
  "checkKeyInfo E s =
     (case dialect_of s of
        XAdES111Signature \<Rightarrow> checkKeyInfo111 E s
      | XAdES132Signature \<Rightarrow> checkKeyInfo132 E s)"

definition getOCSPResponseValue :: "signature \<Rightarrow> error + bytes" where
  "getOCSPResponseValue s =
     (case dialect_of s of
        XAdES111Signature \<Rightarrow> getOCSPResponseValue111 s
      | XAdES132Signature \<Rightarrow> getOCSPResponseValue132 s)"

definition ocspDigestAlgorithm :: "signature \<Rightarrow> error + string" where
  "ocspDigestAlgorithm s =
     (case dialect_of s of
        XAdES111Signature \<Rightarrow> ocspDigestAlgorithm111 s
      | XAdES132Signature \<Rightarrow> ocspDigestAlgorithm132 s)"

definition getRevocationOCSPRef :: "signature \<Rightarrow> error + bytes \<times> string" where
  "getRevocationOCSPRef s =
     (case dialect_of s of
        XAdES111Signature \<Rightarrow> getRevocationOCSPRef111 s
      | XAdES132Signature \<Rightarrow> getRevocationOCSPRef132 s)"

subsection \<open>Signature::validateOffline\<close>

text \<open>
  One \<^verbatim>\<open>try { ... } catch (StackExceptionBase& e) { exc.add(e); }\<close>: a stack exception
  of the block is added to the causes collected so far; anything else leaves the
  function.
\<close>

definition catchStackException :: "error list \<Rightarrow> error + unit \<Rightarrow> error + error list" where
  "catchStackException causes r =
     (case r of
        Inr u \<Rightarrow> Inr causes
      | Inl e \<Rightarrow> if isStackException e then Inr (causes @ [e]) else Inl e)"

text \<open>The second \<^verbatim>\<open>try\<close> block of \<^verbatim>\<open>validateOffline\<close> (lines 363-366).\<close>

definition validateOffline_block2 ::
  "('dom, 'node, 'store, 'ci) env \<Rightarrow> signature \<Rightarrow> 'ci \<Rightarrow> (error + unit) \<times> 'ci" where
  "validateOffline_block2 E s ci =
     (case checkSignatureMethod E s of
        Inl e \<Rightarrow> (Inl e, ci)
      | Inr u \<Rightarrow>
          (case checkReferences E s ci of
             (Inl e, ci') \<Rightarrow> (Inl e, ci')
           | (Inr u, ci') \<Rightarrow>
               (bind (checkKeyInfo E s) (\<lambda>u. checkSignatureValue E s), ci')))"

text \<open>\<^verbatim>\<open>Signature::validateOffline\<close> (lines 351-382).\<close>

definition validateOffline ::
  "('dom, 'node, 'store, 'ci) env \<Rightarrow> signature \<Rightarrow> 'store option \<Rightarrow> 'ci
     \<Rightarrow> (error + unit) \<times> 'ci" where
  "validateOffline E s store ci =
     (case catchStackException [] (checkQualifyingProperties s) of
        Inl e \<Rightarrow> (Inl e, ci)
      | Inr causes1 \<Rightarrow>
          (case validateOffline_block2 E s ci of
             (r2, ci') \<Rightarrow>
               (case catchStackException causes1 r2 of
                  Inl e \<Rightarrow> (Inl e, ci')
                | Inr causes2 \<Rightarrow>
                    (case catchStackException causes2 (checkSigningCertificate E s store) of
                       Inl e \<Rightarrow> (Inl e, ci')
                     | Inr causes3 \<Rightarrow>
                         if causes3 \<noteq> []
                         then (Inl (StackException SignatureIsInvalid causes3), ci')
                         else (Inr (), ci')))))"

subsection \<open>Class SignatureValidator\<close>

text \<open>
  The members that \<^verbatim>\<open>prepare\<close> and \<^verbatim>\<open>validateTMOffline\<close> assign; \<open>None\<close> is a member
  not assigned yet (a null pointer, or the default certificate).
\<close>

record signatureValidator =
  signingCert_m :: "x509Cert option"
  ocspCerts_m :: "x509Cert list option"
  issuerX509_m :: "x509Cert option"
  ocspResponse_m :: bytes

text \<open>The constructor \<^verbatim>\<open>SignatureValidator::SignatureValidator\<close> (lines 67-77).\<close>

definition newSignatureValidator :: signatureValidator where
  "newSignatureValidator =
     \<lparr>signingCert_m = None, ocspCerts_m = None, issuerX509_m = None, ocspResponse_m = []\<rparr>"

text \<open>
  The local variable \<^verbatim>\<open>issure_cn\<close> of \<^verbatim>\<open>prepare\<close> (lines 99-102):
  \<^verbatim>\<open>int pos = issuer.find("CN=", 0) + 3;\<close> and
  \<^verbatim>\<open>issuer.substr(pos, issuer.find(",", pos) - pos)\<close>.
\<close>

definition issure_cn :: "string \<Rightarrow> error + string" where
  "issure_cn issuer =
     (let pos = to_int ((str_find issuer ''CN='' 0 + 3) mod 2 ^ 64);
          count = size_t (int (str_find issuer '','' (size_t pos)) - int (size_t pos))
      in substr issuer (size_t pos) count)"

text \<open>
  \<^verbatim>\<open>SignatureValidator::prepare\<close> (lines 95-123), returning the client and the
  validator with its members as the function leaves them.
\<close>

definition prepare ::
  "('dom, 'node, 'store, 'ci) env \<Rightarrow> configuration \<Rightarrow> signature \<Rightarrow> signatureValidator
     \<Rightarrow> (error + oCSP) \<times> signatureValidator" where
  "prepare E conf s v =
     (case getSigningCertificate E s of
        Inl e \<Rightarrow> (Inl e, v)
      | Inr c \<Rightarrow>
          let v1 = v\<lparr>signingCert_m := Some c\<rparr> in
          (case issure_cn (issuerName c) of
             Inl e \<Rightarrow> (Inl e, v1)
           | Inr cn \<Rightarrow>
               if \<not> hasOCSPConf conf cn then (throw FailedToFindOcspResponder, v1)
               else
                 let ocspConf = getOCSPConf conf cn;
                     v2 = v1\<lparr>issuerX509_m := getCert conf (issuerNameAsn1 c)\<rparr>
                 in
                 if issuerX509_m v2 = None then (throw FailedToLoadIssuerCertificate, v2)
                 else
                   (case loadX509Stack E (conf_cert ocspConf) of
                      Inl e \<Rightarrow> (Inl e, v2)
                    | Inr certs \<Rightarrow>
                        (Inr \<lparr>ocsp_url = url ocspConf, ocsp_skew = skew ocspConf,
                              ocsp_maxAge = maxAge ocspConf, ocsp_certs = certs\<rparr>,
                         v2\<lparr>ocspCerts_m := Some certs\<rparr>))))"

text \<open>
  The statements of \<^verbatim>\<open>validateTMOffline\<close> after \<^verbatim>\<open>getOCSPResponseValue\<close>
  (lines 233-265); none of them assigns a member.
\<close>

definition validateTMOffline_checks ::
  "('dom, 'node, 'store, 'ci) env \<Rightarrow> signature \<Rightarrow> oCSP \<Rightarrow> bytes \<Rightarrow> error + unit" where
  "validateTMOffline_checks E s ocsp resp =
     bind (verifyResponse E ocsp resp) (\<lambda>u.
     bind (getNonce E ocsp resp) (\<lambda>respNonce.
     bind (ocspDigestAlgorithm s) (\<lambda>method.
     bind (digest_create E method) (\<lambda>calc.
       let nonce = d_hash calc (getSignatureValue s) in
       if nonce \<noteq> respNonce then throw NonceFieldMismatch
       else
         bind (getRevocationOCSPRef s) (\<lambda>(revocationOCSPRefValue, ocspResponseHashUri).
         bind (digest_create E ocspResponseHashUri) (\<lambda>ocspResponseCalc.
           let ocspResponseHash = d_hash ocspResponseCalc resp in
           if ocspResponseHash \<noteq> revocationOCSPRefValue then throw OCSPRefValueMismatch
           else Inr ()))))))"

text \<open>\<^verbatim>\<open>SignatureValidator::validateTMOffline\<close> (lines 221-266).\<close>

definition validateTMOffline ::
  "('dom, 'node, 'store, 'ci) env \<Rightarrow> configuration \<Rightarrow> signature \<Rightarrow> signatureValidator
     \<Rightarrow> (error + unit) \<times> signatureValidator" where
  "validateTMOffline E conf s v =
     (case prepare E conf s v of
        (Inl e, v1) \<Rightarrow> (Inl e, v1)
      | (Inr ocsp, v1) \<Rightarrow>
          (case getOCSPResponseValue s of
             Inl e \<Rightarrow> (Inl e, v1)
           | Inr resp \<Rightarrow>
               (validateTMOffline_checks E s ocsp resp, v1\<lparr>ocspResponse_m := resp\<rparr>)))"

section \<open>Notions of the specification\<close>

text \<open>
  What the specification says in its own words, to compare with the functions above.
\<close>

text \<open>
  A std::string is shorter than \<^verbatim>\<open>npos\<close>; \<open>stringFits\<close> says so of an optional
  attribute.
\<close>

definition stringFits :: "string option \<Rightarrow> bool" where
  "stringFits x = (case x of None \<Rightarrow> True | Some t \<Rightarrow> length t < npos)"

text \<open>
  A reference to SignedProperties: the Type attribute is present, starts with
  \<^verbatim>\<open>http://uri.etsi.org/01903\<close> and ends with \<^verbatim>\<open>#SignedProperties\<close>.
\<close>

definition typeIsSignedProperties :: "referenceType \<Rightarrow> bool" where
  "typeIsSignedProperties refType =
     (case type_attr refType of
        None \<Rightarrow> False
      | Some t \<Rightarrow> prefix ''http://uri.etsi.org/01903'' t \<and> suffix ''#SignedProperties'' t)"

text \<open>
  \<open>firstOccurrence pat s pre rest\<close>: the first occurrence of \<open>pat\<close> in \<open>s\<close> is right after
  \<open>pre\<close>, and \<open>rest\<close> is what follows it.
\<close>

definition firstOccurrence :: "string \<Rightarrow> string \<Rightarrow> string \<Rightarrow> string \<Rightarrow> bool" where
  "firstOccurrence pat s pre rest =
     (s = pre @ pat @ rest
      \<and> list_all (\<lambda>j. take (length pat) (drop j s) \<noteq> pat) [0 ..< length pre])"

text \<open>The count of documents is a value of its type.\<close>

definition countFits :: "('dom, 'node, 'store, 'ci) env \<Rightarrow> 'ci \<Rightarrow> bool" where
  "countFits E ci = (documentCount E ci < 2 ^ documentCount_bits E)"

text \<open>
  The canonicalization algorithms that the build knows: three, and the two of C14N 1.1
  when their macros are defined.
\<close>

definition supportedCanonicalizationMethods ::
  "('dom, 'node, 'store, 'ci) env \<Rightarrow> string list" where
  "supportedCanonicalizationMethods E =
     [uRI_ID_C14N_NOC E, uRI_ID_C14N_COM E, uRI_ID_EXC_C14N_NOC E]
     @ (case uRI_ID_C14N11 E of None \<Rightarrow> [] | Some (noc, com) \<Rightarrow> [noc, com])"

text \<open>
  A v1.3.2 tree has a SignaturePolicyIdentifier in the SignedSignatureProperties of some
  QualifyingProperties.
\<close>

definition hasSignaturePolicyIdentifier132 :: "signatureType \<Rightarrow> bool" where
  "hasSignaturePolicyIdentifier132 sig =
     list_ex (\<lambda>obj. list_ex (\<lambda>qp.
        case signedProperties132 qp of
          None \<Rightarrow> False
        | Some sp \<Rightarrow> signaturePolicyIdentifier132 (signedSignatureProperties132 sp) \<noteq> None)
        (qualifyingProperties obj)) (object sig)"

text \<open>
  A v1.1.1 tree with every SignaturePolicyIdentifier replaced by \<open>p\<close>, and nothing else
  changed.
\<close>

definition withSignaturePolicyIdentifier111 ::
  "signaturePolicyIdentifierType \<Rightarrow> signatureType \<Rightarrow> signatureType" where
  "withSignaturePolicyIdentifier111 p sig =
     sig\<lparr>object := map (\<lambda>obj. obj\<lparr>qualifyingProperties1 := map (\<lambda>qp.
        qp\<lparr>signedProperties111 := map_option (\<lambda>sp.
          sp\<lparr>signedSignatureProperties111 :=
            (signedSignatureProperties111 sp)\<lparr>signaturePolicyIdentifier111 := p\<rparr>\<rparr>)
          (signedProperties111 qp)\<rparr>) (qualifyingProperties1 obj)\<rparr>) (object sig)\<rparr>"

text \<open>
  The exceptions of one group of checks, and a group that ends normally or with a stack
  exception.
\<close>

definition errors_of :: "error + unit \<Rightarrow> error list" where
  "errors_of r = (case r of Inl e \<Rightarrow> [e] | Inr u \<Rightarrow> [])"

definition throwsOnlyStackExceptions :: "error + unit \<Rightarrow> bool" where
  "throwsOnlyStackExceptions r = (case r of Inl e \<Rightarrow> isStackException e | Inr u \<Rightarrow> True)"

section \<open>Example signatures and collaborators\<close>

text \<open>
  Concrete inputs for the instances below. The digest of the examples is one byte, the
  sum of the input; the canonicalizer of the examples writes its settings.
\<close>

definition example_sha256 :: string where
  "example_sha256 = ''http://www.w3.org/2001/04/xmlenc#sha256''"

definition example_digest :: "string \<Rightarrow> digest" where
  "example_digest uri =
     \<lparr>d_uri = uri, d_method = 672, d_size = 1, d_hash = (\<lambda>bs. [sum_list bs])\<rparr>"

definition example_issuer :: string where
  "example_issuer = ''C=EE,CN=ESTEID-SK 2011,O=AS Sertifitseerimiskeskus''"

definition example_x509 :: "bytes \<Rightarrow> x509Cert" where
  "example_x509 der =
     \<lparr>issuerName = example_issuer,
      issuerNameAsn1 = [49, 11],
      subject = ''CN=VOTER,C=EE'',
      serial = 7,
      encodeDER = der\<rparr>"

definition example_env :: "(unit, nat, unit, nat) env" where
  "example_env =
     \<lparr>uRI_ID_RSA_SHA1 = ''http://www.w3.org/2000/09/xmldsig#rsa-sha1'',
      uRI_ID_RSA_SHA224 = ''http://www.w3.org/2001/04/xmldsig-more#rsa-sha224'',
      uRI_ID_RSA_SHA256 = ''http://www.w3.org/2001/04/xmldsig-more#rsa-sha256'',
      uRI_ID_C14N_NOC = ''http://www.w3.org/TR/2001/REC-xml-c14n-20010315'',
      uRI_ID_C14N_COM = ''http://www.w3.org/TR/2001/REC-xml-c14n-20010315#WithComments'',
      uRI_ID_EXC_C14N_NOC = ''http://www.w3.org/2001/10/xml-exc-c14n#'',
      uRI_ID_C14N11 = Some (''http://www.w3.org/2006/12/xml-c14n11'',
                            ''http://www.w3.org/2006/12/xml-c14n11#WithComments''),
      digest_create = (\<lambda>uri. if uri = example_sha256 then Inr (example_digest uri)
                              else throw (Collaborator 0)),
      digest_isSupported = (\<lambda>uri. uri = example_sha256),
      x509Cert_decode = (\<lambda>der. Inr (example_x509 der)),
      compareIssuerToString = (\<lambda>c n. issuerName c \<noteq> n),
      verify = (\<lambda>c st. True),
      verifySignature = (\<lambda>c m n d v. True),
      loadX509Stack = (\<lambda>p. Inr [example_x509 [48, 1]]),
      hashMethodOfSignatureMethod = (\<lambda>uri. Some example_sha256),
      dsig_signature = (\<lambda>buf. None),
      xerces_parse = (\<lambda>buf. Some ()),
      getElementsByTagNameNS = (\<lambda>doc ns tag. Some [0]),
      outputBuffer = (\<lambda>c doc node.
         [if commentsProcessing c then 1 else 0,
          if exclusive c = None then 0 else 2,
          if inclusive11 c then 4 else 0]),
      verifyResponse = (\<lambda>ocsp resp. Inr ()),
      getNonce = (\<lambda>ocsp resp. Inr [6]),
      documentCount = (\<lambda>ci. ci),
      documentCount_bits = 64,
      checkDocumentsBegin = (\<lambda>ci. ci),
      checkDocument = (\<lambda>ci uri alg dv. (Inr (), ci)),
      checkDocumentsResult = (\<lambda>ci. True)\<rparr>"

text \<open>The same collaborators, with a schema parser that returns the tree \<open>sig\<close>.\<close>

definition example_env_parsing :: "signatureType \<Rightarrow> (unit, nat, unit, nat) env" where
  "example_env_parsing sig = example_env\<lparr>dsig_signature := (\<lambda>buf. Some sig)\<rparr>"

text \<open>A configuration that knows the responder of the example issuer, or not.\<close>

definition example_conf :: "bool \<Rightarrow> bool \<Rightarrow> configuration" where
  "example_conf knowsResponder knowsIssuer =
     \<lparr>hasOCSPConf = (\<lambda>cn. knowsResponder \<and> cn = ''ESTEID-SK 2011''),
      getOCSPConf = (\<lambda>cn. \<lparr>url = ''http://ocsp.sk.ee'', conf_cert = ''ocsp.pem'',
                            skew = 300, maxAge = 60\<rparr>),
      getCert = (\<lambda>name. if knowsIssuer then Some (example_x509 [48, 2]) else None),
      getDigestURI = example_sha256\<rparr>"

definition example_reference :: referenceType where
  "example_reference =
     \<lparr>uRI = Some ''#S0-SignedProperties'',
      type_attr = Some ''http://uri.etsi.org/01903/v1.3.2#SignedProperties'',
      ref_digestMethod = example_sha256,
      ref_digestValue = [0]\<rparr>"

definition example_signatureType :: "string option \<Rightarrow> objectType list \<Rightarrow> signatureType" where
  "example_signatureType i objs =
     \<lparr>signedInfo =
        \<lparr>canonicalizationMethod = ''http://www.w3.org/TR/2001/REC-xml-c14n-20010315'',
         signatureMethod = ''http://www.w3.org/2001/04/xmldsig-more#rsa-sha256'',
         reference = [example_reference]\<rparr>,
      signatureValue = [1, 2, 3],
      keyInfo = Some \<lparr>x509Data = [\<lparr>x509Certificate = [[48, 130]]\<rparr>]\<rparr>,
      object = objs,
      id_attr = i\<rparr>"

definition example_certID :: certIDType where
  "example_certID =
     \<lparr>certDigest = \<lparr>digestMethod = example_sha256, digestValue = [178]\<rparr>,
      issuerSerial = \<lparr>x509IssuerName = example_issuer, x509SerialNumber = 7\<rparr>\<rparr>"

text \<open>CompleteRevocationRefs and RevocationValues of a time-marked example.\<close>

definition example_completeRevocationRefs :: completeRevocationRefsType where
  "example_completeRevocationRefs =
     \<lparr>oCSPRefs = Some \<lparr>oCSPRef =
        [\<lparr>oCSPIdentifier = \<lparr>producedAt = ''2013-10-20T10:00:00Z''\<rparr>,
          digestAlgAndValue = Some \<lparr>digestMethod = example_sha256, digestValue = [18]\<rparr>\<rparr>]\<rparr>\<rparr>"

definition example_up132 :: "oCSPValuesType option \<Rightarrow> unsignedPropertiesType132" where
  "example_up132 ov =
     \<lparr>unsignedSignatureProperties132 = Some
        \<lparr>revocationValues132 = [\<lparr>oCSPValues = ov\<rparr>],
         completeRevocationRefs132 = [example_completeRevocationRefs]\<rparr>,
      unsignedDataObjectProperties132 = None\<rparr>"

definition example_up111 :: "oCSPValuesType option \<Rightarrow> unsignedPropertiesType111" where
  "example_up111 ov =
     \<lparr>unsignedSignatureProperties111 = Some
        \<lparr>revocationValues111 = Some \<lparr>oCSPValues = ov\<rparr>,
         completeRevocationRefs111 = Some example_completeRevocationRefs\<rparr>,
      unsignedDataObjectProperties111 = None\<rparr>"

definition example_qp132 ::
  "signaturePolicyIdentifierType option \<Rightarrow> unsignedPropertiesType132 option
     \<Rightarrow> qualifyingPropertiesType132" where
  "example_qp132 policy up =
     \<lparr>target132 = ''#S0'',
      signedProperties132 = Some \<lparr>signedSignatureProperties132 =
        \<lparr>signingCertificate132 = Some \<lparr>cert = [example_certID]\<rparr>,
         signaturePolicyIdentifier132 = policy\<rparr>\<rparr>,
      unsignedProperties132 = up\<rparr>"

definition example_qp111 ::
  "signaturePolicyIdentifierType \<Rightarrow> unsignedPropertiesType111 option
     \<Rightarrow> qualifyingPropertiesType111" where
  "example_qp111 policy up =
     \<lparr>target111 = ''#S0'',
      signedProperties111 = Some \<lparr>signedSignatureProperties111 =
        \<lparr>signingCertificate111 = \<lparr>cert = [example_certID]\<rparr>,
         signaturePolicyIdentifier111 = policy\<rparr>\<rparr>,
      unsignedProperties111 = up\<rparr>"

text \<open>
  A v1.3.2 and a v1.1.1 signature with the Id \<open>i\<close>, a signature policy and
  UnsignedProperties as given.
\<close>

definition example_sig132 ::
  "string option \<Rightarrow> signaturePolicyIdentifierType option \<Rightarrow> unsignedPropertiesType132 option
     \<Rightarrow> signature" where
  "example_sig132 i policy up =
     \<lparr>sign = example_signatureType i
               [\<lparr>qualifyingProperties = [example_qp132 policy up], qualifyingProperties1 = []\<rparr>],
      xml = [60, 63],
      dialect_of = XAdES132Signature\<rparr>"

definition example_sig111 ::
  "string option \<Rightarrow> signaturePolicyIdentifierType \<Rightarrow> unsignedPropertiesType111 option
     \<Rightarrow> signature" where
  "example_sig111 i policy up =
     \<lparr>sign = example_signatureType i
               [\<lparr>qualifyingProperties = [], qualifyingProperties1 = [example_qp111 policy up]\<rparr>],
      xml = [60, 63],
      dialect_of = XAdES111Signature\<rparr>"

text \<open>
  UnsignedProperties with the OCSP response in RevocationValues and no
  CompleteRevocationRefs.
\<close>

definition example_up132_without_refs :: "oCSPValuesType option \<Rightarrow> unsignedPropertiesType132" where
  "example_up132_without_refs ov =
     \<lparr>unsignedSignatureProperties132 = Some
        \<lparr>revocationValues132 = [\<lparr>oCSPValues = ov\<rparr>],
         completeRevocationRefs132 = []\<rparr>,
      unsignedDataObjectProperties132 = None\<rparr>"

definition example_up111_without_refs :: "oCSPValuesType option \<Rightarrow> unsignedPropertiesType111" where
  "example_up111_without_refs ov =
     \<lparr>unsignedSignatureProperties111 = Some
        \<lparr>revocationValues111 = Some \<lparr>oCSPValues = ov\<rparr>,
         completeRevocationRefs111 = None\<rparr>,
      unsignedDataObjectProperties111 = None\<rparr>"

text \<open>
  The example collaborators with a signing certificate of another issuer name, and a
  configuration that has the issuer certificate and an OCSPConf for one name only.
\<close>

definition example_env_issuer :: "string \<Rightarrow> (unit, nat, unit, nat) env" where
  "example_env_issuer issuer =
     example_env\<lparr>x509Cert_decode := (\<lambda>der. Inr ((example_x509 der)\<lparr>issuerName := issuer\<rparr>))\<rparr>"

definition example_conf_for :: "string \<Rightarrow> configuration" where
  "example_conf_for name =
     \<lparr>hasOCSPConf = (\<lambda>cn. cn = name),
      getOCSPConf = (\<lambda>cn. \<lparr>url = ''http://ocsp.example.org'', conf_cert = ''other.pem'',
                            skew = 300, maxAge = 60\<rparr>),
      getCert = (\<lambda>name. Some (example_x509 [48, 2])),
      getDigestURI = example_sha256\<rparr>"

text \<open>A signature with other references, canonicalization or signature method.\<close>

definition withReferences :: "referenceType list \<Rightarrow> signature \<Rightarrow> signature" where
  "withReferences refs s =
     s\<lparr>sign := (sign s)\<lparr>signedInfo := (signedInfo (sign s))\<lparr>reference := refs\<rparr>\<rparr>\<rparr>"


definition withCanonicalizationMethod :: "string \<Rightarrow> signature \<Rightarrow> signature" where
  "withCanonicalizationMethod uri s =
     s\<lparr>sign := (sign s)\<lparr>signedInfo := (signedInfo (sign s))\<lparr>canonicalizationMethod := uri\<rparr>\<rparr>\<rparr>"

definition withSignatureMethod :: "string \<Rightarrow> signature \<Rightarrow> signature" where
  "withSignatureMethod uri s =
     s\<lparr>sign := (sign s)\<lparr>signedInfo := (signedInfo (sign s))\<lparr>signatureMethod := uri\<rparr>\<rparr>\<rparr>"

section \<open>Properties\<close>

lemmas example_defs =
  example_sig132_def example_sig111_def example_qp111_def example_qp132_def
  example_up132_def example_up111_def example_completeRevocationRefs_def
  example_certID_def example_signatureType_def example_reference_def
  example_env_def example_env_parsing_def example_conf_def example_x509_def
  example_issuer_def example_digest_def example_sha256_def
  withCanonicalizationMethod_def withSignatureMethod_def withReferences_def

lemmas check_defs =
  checkQualifyingProperties_def checkQualifyingProperties111_def
  checkSignedSignatureProperties111_def checkQualifyingProperties132_def
  checkSignedSignatureProperties132_def bind_def at_def get_def throw_def

subsection \<open>Lists and strings\<close>

lemma length1E: "length xs = 1 \<Longrightarrow> \<exists>x. xs = [x]"
  by (cases xs) auto

lemma find_upt_least:
  assumes "a \<le> k" and "k < b" and "P k" and "\<And>j. a \<le> j \<Longrightarrow> j < k \<Longrightarrow> \<not> P j"
  shows "List.find P [a ..< b] = Some k"
proof -
  have "\<exists>i<length [a ..< b]. P ([a ..< b] ! i) \<and> k = [a ..< b] ! i
          \<and> (\<forall>j<i. \<not> P ([a ..< b] ! j))"
  proof (intro exI [of _ "k - a"] conjI allI impI)
    show "k - a < length [a ..< b]" using assms(1,2) by simp
    show "P ([a ..< b] ! (k - a))" using assms(1,2,3) by simp
    show "k = [a ..< b] ! (k - a)" using assms(1,2) by simp
    fix j assume "j < k - a"
    then show "\<not> P ([a ..< b] ! j)" using assms(1,2,4) by simp
  qed
  then show ?thesis by (simp only: find_Some_iff)
qed

lemma find_rev_upt_greatest:
  assumes "k < b" and "P k" and "\<And>j. k < j \<Longrightarrow> j < b \<Longrightarrow> \<not> P j"
  shows "List.find P (rev [0 ..< b]) = Some k"
proof -
  have "\<exists>i<length (rev [0 ..< b]). P (rev [0 ..< b] ! i) \<and> k = rev [0 ..< b] ! i
          \<and> (\<forall>j<i. \<not> P (rev [0 ..< b] ! j))"
  proof (intro exI [of _ "b - Suc k"] conjI allI impI)
    show "b - Suc k < length (rev [0 ..< b])" using assms(1) by simp
    show "P (rev [0 ..< b] ! (b - Suc k))" using assms(1,2) by (simp add: rev_nth)
    show "k = rev [0 ..< b] ! (b - Suc k)" using assms(1) by (simp add: rev_nth)
    fix j assume "j < b - Suc k"
    then show "\<not> P (rev [0 ..< b] ! j)" using assms(1,3) by (simp add: rev_nth)
  qed
  then show ?thesis by (simp only: find_Some_iff)
qed

lemma find_SomeD: "List.find P xs = Some x \<Longrightarrow> P x \<and> x \<in> set xs"
  by (auto simp: find_Some_iff)

text \<open>\<^verbatim>\<open>s.find(pat) == 0\<close> says that \<open>s\<close> starts with \<open>pat\<close>.\<close>

lemma str_find_0_iff: "(str_find s pat 0 = 0) = prefix pat s"
proof
  assume h: "str_find s pat 0 = 0"
  show "prefix pat s"
  proof (cases "List.find (occurs_at s pat) [0 ..< Suc (length s)]")
    case None
    with h show ?thesis by (simp add: str_find_def npos_def)
  next
    case (Some i)
    with h have "i = 0" by (simp add: str_find_def)
    with find_SomeD [OF Some] have "take (length pat) s = pat"
      by (simp add: occurs_at_def)
    then show ?thesis by (metis take_is_prefix)
  qed
next
  assume "prefix pat s"
  then obtain r where "s = pat @ r" by (auto simp: prefix_def)
  then have "occurs_at s pat 0" by (simp add: occurs_at_def)
  then have "List.find (occurs_at s pat) [0 ..< Suc (length s)] = Some 0"
    by (intro find_upt_least) simp_all
  then show "str_find s pat 0 = 0" by (simp add: str_find_def)
qed

text \<open>\<^verbatim>\<open>s.rfind(pat) == s.length() - pat.length()\<close> says that \<open>s\<close> ends with \<open>pat\<close>.\<close>

lemma str_rfind_suffix:
  assumes "suffix pat s"
  shows "str_rfind s pat = length s - length pat"
proof -
  from assms obtain r where s: "s = r @ pat" by (auto simp: suffix_def)
  have "List.find (occurs_at s pat) (rev [0 ..< Suc (length s)]) = Some (length r)"
  proof (rule find_rev_upt_greatest)
    show "length r < Suc (length s)" using s by simp
    show "occurs_at s pat (length r)" using s by (simp add: occurs_at_def)
    fix j assume "length r < j"
    then show "\<not> occurs_at s pat j" using s by (simp add: occurs_at_def)
  qed
  with s show ?thesis by (simp add: str_rfind_def)
qed

lemma str_rfind_at_end:
  assumes "str_rfind s pat = length s - length pat" and "length pat \<le> length s"
    and "length s < npos"
  shows "suffix pat s"
proof (cases "List.find (occurs_at s pat) (rev [0 ..< Suc (length s)])")
  case None
  with assms show ?thesis by (simp add: str_rfind_def)
next
  case (Some i)
  with assms(1) have "i = length s - length pat" by (simp add: str_rfind_def)
  with find_SomeD [OF Some] have "take (length pat) (drop (length s - length pat) s) = pat"
    by (simp add: occurs_at_def)
  with assms(2) have "drop (length s - length pat) s = pat" by simp
  then show ?thesis by (metis suffix_drop)
qed

lemma occurs_at_single: "occurs_at s [c] j = (j < length s \<and> s ! j = c)"
proof (cases "j < length s")
  case False
  then show ?thesis by (simp add: occurs_at_def)
next
  case True
  then have "drop j s = s ! j # drop (Suc j) s"
    by (simp add: Cons_nth_drop_Suc)
  with True show ?thesis by (auto simp: occurs_at_def)
qed

lemma length_takeWhile_neq: "c \<in> set r \<Longrightarrow> length (takeWhile (\<lambda>x. x \<noteq> c) r) < length r"
  by (induction r) auto

text \<open>\<^verbatim>\<open>s.find(c, p)\<close> for one character.\<close>

lemma str_find_char:
  assumes "p \<le> length s"
  shows "str_find s [c] p =
     (if c \<in> set (drop p s) then p + length (takeWhile (\<lambda>x. x \<noteq> c) (drop p s)) else npos)"
proof (cases "c \<in> set (drop p s)")
  case False
  have "List.find (occurs_at s [c]) [p ..< Suc (length s)] = None"
  proof (rule ccontr)
    assume "List.find (occurs_at s [c]) [p ..< Suc (length s)] \<noteq> None"
    then obtain i where "List.find (occurs_at s [c]) [p ..< Suc (length s)] = Some i" by auto
    from find_SomeD [OF this] have i: "p \<le> i" "i < length s" "s ! i = c"
      by (auto simp: occurs_at_single)
    then have "drop p s ! (i - p) = c" and "i - p < length (drop p s)"
      by simp_all
    then have "c \<in> set (drop p s)"
      using nth_mem by blast
    with False show False by simp
  qed
  with False show ?thesis by (simp add: str_find_def)
next
  case True
  let ?r = "drop p s"
  let ?k = "length (takeWhile (\<lambda>x. x \<noteq> c) ?r)"
  from True have kl: "?k < length ?r"
    by (rule length_takeWhile_neq)
  from nth_length_takeWhile [OF kl] have rk: "?r ! ?k = c"
    by simp
  have "List.find (occurs_at s [c]) [p ..< Suc (length s)] = Some (p + ?k)"
  proof (rule find_upt_least)
    show "p \<le> p + ?k" by simp
    show "p + ?k < Suc (length s)" using kl by simp
    show "occurs_at s [c] (p + ?k)" using kl rk assms by (simp add: occurs_at_single)
    fix j assume j: "p \<le> j" "j < p + ?k"
    then have jk: "j - p < ?k" by simp
    then have "takeWhile (\<lambda>x. x \<noteq> c) ?r ! (j - p) \<in> set (takeWhile (\<lambda>x. x \<noteq> c) ?r)"
      by (rule nth_mem)
    then have "takeWhile (\<lambda>x. x \<noteq> c) ?r ! (j - p) \<noteq> c"
      by (auto dest: set_takeWhileD)
    moreover have "takeWhile (\<lambda>x. x \<noteq> c) ?r ! (j - p) = ?r ! (j - p)"
      using jk by (rule takeWhile_nth)
    ultimately have "s ! j \<noteq> c" using j kl assms by simp
    then show "\<not> occurs_at s [c] j" by (simp add: occurs_at_single)
  qed
  with True show ?thesis by (simp add: str_find_def)
qed

lemma str_find_firstOccurrence:
  assumes "firstOccurrence pat s pre rest"
  shows "str_find s pat 0 = length pre"
proof -
  from assms have s: "s = pre @ pat @ rest"
    and n: "\<And>j. j < length pre \<Longrightarrow> take (length pat) (drop j s) \<noteq> pat"
    by (auto simp: firstOccurrence_def list_all_iff)
  have "List.find (occurs_at s pat) [0 ..< Suc (length s)] = Some (length pre)"
  proof (rule find_upt_least)
    show "0 \<le> length pre" by simp
    show "length pre < Suc (length s)" using s by simp
    show "occurs_at s pat (length pre)" using s by (simp add: occurs_at_def)
    fix j assume "j < length pre"
    from n [OF this] show "\<not> occurs_at s pat j" by (simp add: occurs_at_def)
  qed
  then show ?thesis by (simp add: str_find_def)
qed

subsection \<open>The issuer CN of prepare\<close>

lemma issure_cn_firstOccurrence:
  assumes f: "firstOccurrence ''CN='' issuer pre rest" and len: "length issuer < 2 ^ 31"
  shows "issure_cn issuer = Inr (takeWhile (\<lambda>x. x \<noteq> CHR '','') rest)"
proof -
  let ?p = "length pre + 3"
  from f have s: "issuer = pre @ ''CN='' @ rest" by (simp add: firstOccurrence_def)
  with len have p31: "?p < 2 ^ 31" by simp
  have l31: "(2::nat) ^ 31 < 2 ^ 32" "(2::nat) ^ 31 < 2 ^ 64" by simp_all
  have "(str_find issuer ''CN='' 0 + 3) mod 2 ^ 64 = ?p"
    using str_find_firstOccurrence [OF f] p31 l31 by simp
  moreover have "to_int ?p = int ?p"
  proof -
    have "int ?p mod 2 ^ 32 = int ?p" using p31 by simp
    moreover have "int ?p < 2 ^ 31" using p31 by (simp add: of_nat_less_numeral_power_cancel_iff)
    ultimately show ?thesis by (simp only: to_int_def Let_def if_True)
  qed
  moreover have sz: "size_t (int ?p) = ?p"
    using p31 by (simp add: size_t_def)
  ultimately have pos: "size_t (to_int ((str_find issuer ''CN='' 0 + 3) mod 2 ^ 64)) = ?p"
    by simp
  have dr: "drop ?p issuer = rest" using s by simp
  have pl: "?p \<le> length issuer" using s by simp
  have r31: "length rest < 2 ^ 31" using s len by simp
  let ?k = "length (takeWhile (\<lambda>x. x \<noteq> CHR '','') rest)"
  have cnt: "take (size_t (int (str_find issuer '','' ?p) - int ?p)) rest
               = takeWhile (\<lambda>x. x \<noteq> CHR '','') rest"
  proof (cases "CHR '','' \<in> set rest")
    case True
    then have "str_find issuer '','' ?p = ?p + ?k"
      using str_find_char [OF pl, of "CHR '',''"] dr by simp
    moreover have "?k < 2 ^ 64"
      using length_takeWhile_le [of "\<lambda>x. x \<noteq> CHR '',''" rest] r31 by simp
    ultimately have "size_t (int (str_find issuer '','' ?p) - int ?p) = ?k"
      by (simp add: size_t_def)
    then show ?thesis by (simp add: takeWhile_eq_take [symmetric])
  next
    case False
    then have "str_find issuer '','' ?p = npos"
      using str_find_char [OF pl, of "CHR '',''"] dr by simp
    then have sz: "size_t (int (str_find issuer '','' ?p) - int ?p) = npos - ?p"
      using p31 by (simp add: size_t_def npos_def nat_diff_distrib)
    have "length rest \<le> npos - ?p"
      using r31 p31 by (simp add: npos_def)
    then have tk: "take (npos - ?p) rest = rest" by simp
    from False have tw: "takeWhile (\<lambda>x. x \<noteq> CHR '','') rest = rest" by auto
    show ?thesis by (simp only: sz tk tw)
  qed
  show ?thesis
    unfolding issure_cn_def Let_def pos substr_def
    using pl dr cnt by simp
qed

lemma example_issuer_firstOccurrence:
  "firstOccurrence ''CN='' example_issuer ''C=EE,'' ''ESTEID-SK 2011,O=AS Sertifitseerimiskeskus''"
  by (simp add: firstOccurrence_def example_issuer_def)

lemma example_issure_cn: "issure_cn example_issuer = Inr ''ESTEID-SK 2011''"
  using issure_cn_firstOccurrence [OF example_issuer_firstOccurrence]
  by (simp add: example_issuer_def)

lemma example_getSigningCertificate:
  "getSigningCertificate example_env (example_sig132 i policy up) = Inr (example_x509 [48, 130])"
  by (simp add: getSigningCertificate_def getSigningX509CertificateType_def bind_def
      example_sig132_def example_signatureType_def example_env_def)

lemma example_prepare:
  "prepare example_env (example_conf True True) (example_sig132 i policy up)
     newSignatureValidator =
   (Inr \<lparr>ocsp_url = ''http://ocsp.sk.ee'', ocsp_skew = 300, ocsp_maxAge = 60,
         ocsp_certs = [example_x509 [48, 1]]\<rparr>,
    \<lparr>signingCert_m = Some (example_x509 [48, 130]),
     ocspCerts_m = Some [example_x509 [48, 1]],
     issuerX509_m = Some (example_x509 [48, 2]),
     ocspResponse_m = []\<rparr>)"
proof -
  have i: "issure_cn (issuerName (example_x509 [48, 130])) = Inr ''ESTEID-SK 2011''"
    using example_issure_cn by (simp add: example_x509_def)
  show ?thesis
    unfolding prepare_def example_getSigningCertificate
    by (simp add: i Let_def example_conf_def newSignatureValidator_def)
       (simp add: example_env_def)
qed

subsection \<open>SignatureValidator::validateTMOffline\<close>

text \<open>
  Where \<^verbatim>\<open>ocspDigestAlgorithm\<close> returns, the whole path to the first OCSPRef's
  DigestAlgAndValue is there, so \<^verbatim>\<open>getRevocationOCSPRef\<close> returns too, with the same
  digest method.
\<close>

lemma ocspDigestAlgorithm_getRevocationOCSPRef:
  assumes "ocspDigestAlgorithm s = Inr method"
  shows "\<exists>refValue. getRevocationOCSPRef s = Inr (refValue, method)"
proof (cases "dialect_of s")
  case XAdES111Signature
  with assms show ?thesis
    by (auto simp: ocspDigestAlgorithm_def ocspDigestAlgorithm111_def getRevocationOCSPRef_def
        getRevocationOCSPRef111_def revocationOCSPRef_of_def bind_def get_def at_def Let_def
        split: sum.splits option.splits if_splits)
next
  case XAdES132Signature
  with assms show ?thesis
    by (auto simp: ocspDigestAlgorithm_def ocspDigestAlgorithm132_def getRevocationOCSPRef_def
        getRevocationOCSPRef132_def revocationOCSPRef_of_def bind_def get_def at_def Let_def
        split: sum.splits option.splits if_splits)
qed

text \<open>
  Where the whole path exists: \<^verbatim>\<open>prepare\<close> and \<^verbatim>\<open>getOCSPResponseValue\<close> have returned,
  the response \<open>resp\<close> has passed \<^verbatim>\<open>verifyResponse\<close> and carries the nonce \<open>respNonce\<close>,
  and \<open>calc\<close> is the digest of the algorithm that \<^verbatim>\<open>ocspDigestAlgorithm\<close> reads from
  the first OCSPRef. Then \<^verbatim>\<open>validateTMOffline\<close> throws "Calculated signature hash doesn't
  match to OCSP responder nonce field" if and only if the digest of SignatureValue
  differs from the nonce; otherwise it throws "OCSPRef value doesn't match with hash of
  OCSP response" if and only if the digest of the response differs from the DigestValue
  \<open>refValue\<close> of that OCSPRef; and it returns normally if and only if both digests match.
\<close>

theorem validateTMOffline_bindings:
  assumes "prepare E conf s v = (Inr ocsp, v1)"
    and "getOCSPResponseValue s = Inr resp"
    and "verifyResponse E ocsp resp = Inr ()"
    and "getNonce E ocsp resp = Inr respNonce"
    and "ocspDigestAlgorithm s = Inr method"
    and "digest_create E method = Inr calc"
  shows "\<exists>refValue.
     getRevocationOCSPRef s = Inr (refValue, method)
     \<and> (fst (validateTMOffline E conf s v) = throw NonceFieldMismatch)
         = (d_hash calc (getSignatureValue s) \<noteq> respNonce)
     \<and> (d_hash calc (getSignatureValue s) = respNonce \<longrightarrow>
          (fst (validateTMOffline E conf s v) = throw OCSPRefValueMismatch)
            = (d_hash calc resp \<noteq> refValue))
     \<and> (fst (validateTMOffline E conf s v) = Inr ())
         = (d_hash calc (getSignatureValue s) = respNonce \<and> d_hash calc resp = refValue)"
proof -
  from ocspDigestAlgorithm_getRevocationOCSPRef [OF assms(5)] obtain refValue where
    r: "getRevocationOCSPRef s = Inr (refValue, method)" by blast
  have "fst (validateTMOffline E conf s v) =
     (if d_hash calc (getSignatureValue s) \<noteq> respNonce then throw NonceFieldMismatch
      else if d_hash calc resp \<noteq> refValue then throw OCSPRefValueMismatch
      else Inr ())"
    using assms r
    by (simp add: validateTMOffline_def validateTMOffline_checks_def bind_def Let_def)
  with r show ?thesis
    by (auto simp: throw_def)
qed

text \<open>
  An instance: the time-marked v1.3.2 example, whose response \<open>[9, 9]\<close> has the digest
  \<open>[18]\<close> of its OCSPRef and whose SignatureValue has the digest \<open>[6]\<close>, the nonce of the
  example responder; and the same signature with a response of another digest.
\<close>

theorem validateTMOffline_bindings_witness:
  "fst (validateTMOffline example_env (example_conf True True)
          (example_sig132 (Some ''S0'') None
             (Some (example_up132 (Some \<lparr>encapsulatedOCSPValue = [[9, 9]]\<rparr>))))
          newSignatureValidator) = Inr ()
   \<and> fst (validateTMOffline example_env (example_conf True True)
          (example_sig132 (Some ''S0'') None
             (Some (example_up132 (Some \<lparr>encapsulatedOCSPValue = [[9, 8]]\<rparr>))))
          newSignatureValidator) = throw OCSPRefValueMismatch"
proof -
  let ?s = "\<lambda>r. example_sig132 (Some ''S0'') None
                  (Some (example_up132 (Some \<lparr>encapsulatedOCSPValue = [r]\<rparr>)))"
  let ?ocsp = "\<lparr>ocsp_url = ''http://ocsp.sk.ee'', ocsp_skew = 300, ocsp_maxAge = 60,
                 ocsp_certs = [example_x509 [48, 1]]\<rparr>"
  have h2: "getOCSPResponseValue (?s r) = Inr r" for r
    by (simp add: getOCSPResponseValue_def getOCSPResponseValue132_def unsignSigProps132_def
        bind_def at_def get_def example_sig132_def example_signatureType_def example_qp132_def
        example_up132_def)
  have h3: "verifyResponse example_env ?ocsp r = Inr ()" for r
    by (simp add: example_env_def)
  have h4: "getNonce example_env ?ocsp r = Inr [6]" for r
    by (simp add: example_env_def)
  have h5: "ocspDigestAlgorithm (?s r) = Inr example_sha256" for r
    by (simp add: ocspDigestAlgorithm_def ocspDigestAlgorithm132_def unsignSigProps132_def
        bind_def at_def get_def example_sig132_def example_signatureType_def example_qp132_def
        example_up132_def example_completeRevocationRefs_def)
  have h6: "digest_create example_env example_sha256 = Inr (example_digest example_sha256)"
    by (simp add: example_env_def)
  have r: "getRevocationOCSPRef (?s r) = Inr ([18], example_sha256)" for r
    by (simp add: getRevocationOCSPRef_def getRevocationOCSPRef132_def unsignSigProps132_def
        revocationOCSPRef_of_def bind_def at_def get_def example_sig132_def
        example_signatureType_def example_qp132_def example_up132_def
        example_completeRevocationRefs_def)
  have sv: "d_hash (example_digest example_sha256) (getSignatureValue (?s r)) = [6]" for r
    by (simp add: getSignatureValue_def example_digest_def example_sig132_def
        example_signatureType_def)
  have a: "d_hash (example_digest example_sha256) [9, 9] = [18]"
    and b: "d_hash (example_digest example_sha256) [9, 8] \<noteq> [18]"
    by (simp_all add: example_digest_def)
  from validateTMOffline_bindings
         [OF example_prepare h2 [of "[9, 9]"] h3 h4 h5 [of "[9, 9]"] h6]
    validateTMOffline_bindings
         [OF example_prepare h2 [of "[9, 8]"] h3 h4 h5 [of "[9, 8]"] h6]
  show ?thesis
    by (simp add: r sv a b)
qed

text \<open>
  For every signature: \<^verbatim>\<open>validateTMOffline\<close> returns normally only if the response has
  passed \<^verbatim>\<open>verifyResponse\<close> and both digests match.
\<close>

lemma validateTMOffline_returns_only_if:
  assumes "fst (validateTMOffline E conf s v) = Inr ()"
  shows "\<exists>ocsp v1 resp respNonce method calc refValue.
     prepare E conf s v = (Inr ocsp, v1)
     \<and> getOCSPResponseValue s = Inr resp
     \<and> verifyResponse E ocsp resp = Inr ()
     \<and> getNonce E ocsp resp = Inr respNonce
     \<and> ocspDigestAlgorithm s = Inr method
     \<and> digest_create E method = Inr calc
     \<and> getRevocationOCSPRef s = Inr (refValue, method)
     \<and> d_hash calc (getSignatureValue s) = respNonce
     \<and> d_hash calc resp = refValue"
proof -
  from assms obtain ocsp v1 where p: "prepare E conf s v = (Inr ocsp, v1)"
    by (cases "prepare E conf s v") (auto simp: validateTMOffline_def split: sum.splits)
  with assms obtain resp where g: "getOCSPResponseValue s = Inr resp"
    by (cases "getOCSPResponseValue s") (auto simp: validateTMOffline_def)
  with p assms have c: "validateTMOffline_checks E s ocsp resp = Inr ()"
    by (simp add: validateTMOffline_def)
  then have vr: "verifyResponse E ocsp resp = Inr ()"
    by (cases "verifyResponse E ocsp resp")
       (simp_all add: validateTMOffline_checks_def bind_def)
  with c obtain respNonce where n: "getNonce E ocsp resp = Inr respNonce"
    by (cases "getNonce E ocsp resp") (simp_all add: validateTMOffline_checks_def bind_def)
  with c vr obtain alg where m: "ocspDigestAlgorithm s = Inr alg"
    by (cases "ocspDigestAlgorithm s") (simp_all add: validateTMOffline_checks_def bind_def)
  with c vr n obtain calc where d: "digest_create E alg = Inr calc"
    by (cases "digest_create E alg") (simp_all add: validateTMOffline_checks_def bind_def)
  from ocspDigestAlgorithm_getRevocationOCSPRef [OF m] obtain refValue where
    r: "getRevocationOCSPRef s = Inr (refValue, alg)" by blast
  from c vr n m d r have "d_hash calc (getSignatureValue s) = respNonce
      \<and> d_hash calc resp = refValue"
    by (simp add: validateTMOffline_checks_def bind_def Let_def throw_def split: if_splits)
  with p g vr n m d r show ?thesis by blast
qed

text \<open>
  C1. The claim is that \<^verbatim>\<open>validateTMOffline\<close>, for every time-marked signature whose OCSP
  response has passed \<^verbatim>\<open>verifyResponse\<close>, ends in one of three ways: the nonce
  mismatch, the OCSPRef mismatch, or a normal return. The code at a parsed signature
  whose RevocationValues hold the response (which passes \<^verbatim>\<open>verifyResponse\<close>) and whose
  UnsignedSignatureProperties have no CompleteRevocationRefs: \<^verbatim>\<open>ocspDigestAlgorithm\<close>
  indexes the empty sequence (v1.3.2) or dereferences the absent optional (v1.1.1),
  and \<^verbatim>\<open>validateTMOffline\<close> ends there, in none of the three ways. On the same
  signatures \<^verbatim>\<open>getRevocationOCSPRef\<close>, which guards every level of the path, throws
  "Missing UnsignedProperties/UnsignedSignatureProperties/CompleteRevocationRefs/
  OCSPRefs/OCSPRef/DigestAlgAndValue element"; it is called only after
  \<^verbatim>\<open>ocspDigestAlgorithm\<close>.
\<close>

theorem validateTMOffline_absent_CompleteRevocationRefs:
  "parse (example_env_parsing (sign (example_sig132 (Some ''S0'') None
            (Some (example_up132_without_refs (Some \<lparr>encapsulatedOCSPValue = [[9, 9]]\<rparr>))))))
         [60, 63]
     = Inr (example_sig132 (Some ''S0'') None
              (Some (example_up132_without_refs (Some \<lparr>encapsulatedOCSPValue = [[9, 9]]\<rparr>))))
   \<and> getOCSPResponseValue (example_sig132 (Some ''S0'') None
         (Some (example_up132_without_refs (Some \<lparr>encapsulatedOCSPValue = [[9, 9]]\<rparr>))))
     = Inr [9, 9]
   \<and> verifyResponse example_env
         \<lparr>ocsp_url = ''http://ocsp.sk.ee'', ocsp_skew = 300, ocsp_maxAge = 60,
            ocsp_certs = [example_x509 [48, 1]]\<rparr> [9, 9]
     = Inr ()
   \<and> fst (validateTMOffline example_env (example_conf True True)
         (example_sig132 (Some ''S0'') None
            (Some (example_up132_without_refs (Some \<lparr>encapsulatedOCSPValue = [[9, 9]]\<rparr>))))
         newSignatureValidator)
     = Inl IndexOutOfRange
   \<and> getRevocationOCSPRef (example_sig132 (Some ''S0'') None
         (Some (example_up132_without_refs (Some \<lparr>encapsulatedOCSPValue = [[9, 9]]\<rparr>))))
     = throw MissingDigestAlgAndValue
   \<and> getOCSPResponseValue (example_sig111 (Some ''S0'') ''P''
         (Some (example_up111_without_refs (Some \<lparr>encapsulatedOCSPValue = [[9, 9]]\<rparr>))))
     = Inr [9, 9]
   \<and> fst (validateTMOffline example_env (example_conf True True)
         (example_sig111 (Some ''S0'') ''P''
            (Some (example_up111_without_refs (Some \<lparr>encapsulatedOCSPValue = [[9, 9]]\<rparr>))))
         newSignatureValidator)
     = Inl AbsentOptional
   \<and> getRevocationOCSPRef (example_sig111 (Some ''S0'') ''P''
         (Some (example_up111_without_refs (Some \<lparr>encapsulatedOCSPValue = [[9, 9]]\<rparr>))))
     = throw MissingDigestAlgAndValue"
proof -
  let ?a = "example_sig132 (Some ''S0'') None
              (Some (example_up132_without_refs (Some \<lparr>encapsulatedOCSPValue = [[9, 9]]\<rparr>)))"
  let ?b = "example_sig111 (Some ''S0'') ''P''
              (Some (example_up111_without_refs (Some \<lparr>encapsulatedOCSPValue = [[9, 9]]\<rparr>)))"
  let ?ocsp = "\<lparr>ocsp_url = ''http://ocsp.sk.ee'', ocsp_skew = 300, ocsp_maxAge = 60,
                 ocsp_certs = [example_x509 [48, 1]]\<rparr>"
  have ga: "getOCSPResponseValue ?a = Inr [9, 9]"
    by (simp add: getOCSPResponseValue_def getOCSPResponseValue132_def unsignSigProps132_def
        bind_def at_def get_def example_sig132_def example_signatureType_def example_qp132_def
        example_up132_without_refs_def)
  have gb: "getOCSPResponseValue ?b = Inr [9, 9]"
    by (simp add: getOCSPResponseValue_def getOCSPResponseValue111_def unsignSigProps111_def
        bind_def at_def get_def example_sig111_def example_signatureType_def example_qp111_def
        example_up111_without_refs_def)
  have vr: "verifyResponse example_env ?ocsp [9, 9] = Inr ()"
    and gn: "getNonce example_env ?ocsp [9, 9] = Inr [6]"
    by (simp_all add: example_env_def)
  have da: "ocspDigestAlgorithm ?a = Inl IndexOutOfRange"
    by (simp add: ocspDigestAlgorithm_def ocspDigestAlgorithm132_def unsignSigProps132_def
        bind_def at_def get_def example_sig132_def example_signatureType_def example_qp132_def
        example_up132_without_refs_def)
  have db: "ocspDigestAlgorithm ?b = Inl AbsentOptional"
    by (simp add: ocspDigestAlgorithm_def ocspDigestAlgorithm111_def unsignSigProps111_def
        bind_def at_def get_def example_sig111_def example_signatureType_def example_qp111_def
        example_up111_without_refs_def)
  have ra: "getRevocationOCSPRef ?a = throw MissingDigestAlgAndValue"
    by (simp add: getRevocationOCSPRef_def getRevocationOCSPRef132_def unsignSigProps132_def
        bind_def at_def get_def Let_def example_sig132_def example_signatureType_def
        example_qp132_def example_up132_without_refs_def)
  have rb: "getRevocationOCSPRef ?b = throw MissingDigestAlgAndValue"
    by (simp add: getRevocationOCSPRef_def getRevocationOCSPRef111_def unsignSigProps111_def
        bind_def at_def get_def Let_def example_sig111_def example_signatureType_def
        example_qp111_def example_up111_without_refs_def)
  have pb: "prepare example_env (example_conf True True) ?b newSignatureValidator
              = prepare example_env (example_conf True True) ?a newSignatureValidator"
    by (simp add: prepare_def getSigningCertificate_def getSigningX509CertificateType_def
        example_sig132_def example_sig111_def example_signatureType_def)
  have va: "fst (validateTMOffline example_env (example_conf True True) ?a
                   newSignatureValidator) = Inl IndexOutOfRange"
    by (simp add: validateTMOffline_def validateTMOffline_checks_def example_prepare ga vr gn da
        bind_def)
  have vb: "fst (validateTMOffline example_env (example_conf True True) ?b
                   newSignatureValidator) = Inl AbsentOptional"
    by (simp add: validateTMOffline_def validateTMOffline_checks_def pb example_prepare gb vr gn
        db bind_def)
  have pa: "parse (example_env_parsing (sign ?a)) [60, 63] = Inr ?a"
    by (simp add: parse_def Let_def example_env_parsing_def example_sig132_def
        example_signatureType_def)
  from pa ga vr va ra gb vb rb show ?thesis by blast
qed

subsection \<open>Signature::checkReferences\<close>

lemma isReferenceToSigProps_iff:
  assumes "stringFits (type_attr refType)"
  shows "isReferenceToSigProps refType = typeIsSignedProperties refType"
proof (cases "type_attr refType")
  case None
  then show ?thesis by (simp add: isReferenceToSigProps_def typeIsSignedProperties_def)
next
  case (Some t)
  with assms have fits: "length t < npos" by (simp add: stringFits_def)
  show ?thesis
  proof (cases "prefix ''http://uri.etsi.org/01903'' t")
    case False
    with Some show ?thesis
      by (simp add: isReferenceToSigProps_def typeIsSignedProperties_def str_find_0_iff)
  next
    case True
    then have len: "25 \<le> length t" by (auto simp: prefix_def)
    with fits have sz: "size_t (int (length t) - int (length ''#SignedProperties''))
                        = length t - length ''#SignedProperties''"
      by (simp add: size_t_def npos_def nat_diff_distrib)
    have "(str_rfind t ''#SignedProperties'' = length t - length ''#SignedProperties'')
            = suffix ''#SignedProperties'' t"
      using str_rfind_suffix [of "''#SignedProperties''" t]
        str_rfind_at_end [of t "''#SignedProperties''"] len fits
      by auto
    with Some True sz show ?thesis
      by (simp only: isReferenceToSigProps_def typeIsSignedProperties_def str_find_0_iff
          option.case simp_thms)
  qed
qed

lemma filter_isReferenceToSigProps:
  assumes "\<forall>r \<in> set refs. stringFits (type_attr r)"
  shows "filter isReferenceToSigProps refs = filter typeIsSignedProperties refs"
  using assms by (intro filter_cong) (simp_all add: isReferenceToSigProps_iff)

lemma checkReferences_loop_none:
  "filter isReferenceToSigProps refs = [] \<Longrightarrow>
     checkReferences_loop E s got refs = Inr got"
  by (induction refs) (auto split: if_splits)

text \<open>
  The loop returns only when at most one reference is a reference to SignedProperties,
  and none when the flag was already set; the flag it returns says whether one was seen.
\<close>

lemma checkReferences_loop_ok:
  "checkReferences_loop E s got refs = Inr g \<Longrightarrow>
     g = (got \<or> filter isReferenceToSigProps refs \<noteq> [])
     \<and> length (filter isReferenceToSigProps refs) \<le> (if got then 0 else 1)"
proof (induction refs arbitrary: got)
  case Nil
  then show ?case by simp
next
  case (Cons r rs)
  show ?case
  proof (cases "isReferenceToSigProps r")
    case False
    with Cons show ?thesis by simp
  next
    case True
    with Cons.prems have ng: "\<not> got"
      by (auto simp: throw_def)
    with True Cons.prems have "checkReferences_loop E s True rs = Inr g"
      by (auto simp: bind_def split: sum.splits)
    from Cons.IH [OF this] True ng show ?thesis by simp
  qed
qed

lemma checkReferences_ok:
  assumes "fst (checkReferences E s ci) = Inr ()"
  shows "length (reference (signedInfo (sign s)))
           = (documentCount E ci + 1) mod 2 ^ documentCount_bits E
         \<and> length (filter isReferenceToSigProps (reference (signedInfo (sign s)))) = 1"
proof -
  let ?refs = "reference (signedInfo (sign s))"
  from assms have n: "length ?refs = (documentCount E ci + 1) mod 2 ^ documentCount_bits E"
    by (auto simp: checkReferences_def Let_def throw_def split: if_splits)
  with assms obtain g where l: "checkReferences_loop E s False ?refs = Inr g" and g: "g"
    by (auto simp: checkReferences_def Let_def throw_def split: if_splits sum.splits)
  from checkReferences_loop_ok [OF l] g
  have "filter isReferenceToSigProps ?refs \<noteq> []"
    and "length (filter isReferenceToSigProps ?refs) \<le> 1" by simp_all
  then have "length (filter isReferenceToSigProps ?refs) = 1"
    by (cases "filter isReferenceToSigProps ?refs") simp_all
  with n show ?thesis by simp
qed

text \<open>Where the sum of a count and 1 is not 0, it has not wrapped.\<close>

lemma succ_mod_pos:
  assumes "(n::nat) < m" and "0 < (n + 1) mod m"
  shows "(n + 1) mod m = n + 1"
proof (cases "n + 1 = m")
  case True
  with assms(2) show ?thesis by simp
next
  case False
  with assms(1) have "n + 1 < m" by simp
  then show ?thesis by simp
qed

text \<open>
  C2. For a signature and a container (the Type attributes being strings, so shorter
  than npos, and the count of documents a value of its unsigned type), with \<open>refs\<close>
  the references of SignedInfo: \<^verbatim>\<open>checkReferences\<close> returns normally only when the
  number of references is \<^verbatim>\<open>documentCount()\<close> plus one and exactly one reference has a
  Type that is present, starts with \<^verbatim>\<open>http://uri.etsi.org/01903\<close> and ends with
  \<^verbatim>\<open>#SignedProperties\<close>; so a wrong number, no such reference, or two or more of them,
  is a failure. Which failure: the function throws "Number of references in SignedInfo
  is invalid" when the number differs from the sum of line 635, which is computed in
  the type of the count and is 0 for the largest count; and it throws "SignedInfo does
  not contain reference to SignedProperties" when the number is that sum and no
  reference has such a Type (as with no reference at all and the largest count).
\<close>

theorem checkReferences_count_and_SignedProperties:
  assumes "\<forall>r \<in> set (reference (signedInfo (sign s))). stringFits (type_attr r)"
    and "countFits E ci"
    and "refs = reference (signedInfo (sign s))"
  shows "(fst (checkReferences E s ci) = Inr () \<longrightarrow>
            length refs = documentCount E ci + 1
            \<and> length (filter typeIsSignedProperties refs) = 1)
    \<and> (length refs \<noteq> documentCount E ci + 1
         \<or> length (filter typeIsSignedProperties refs) \<noteq> 1
          \<longrightarrow> (\<exists>e. fst (checkReferences E s ci) = Inl e))
    \<and> (length refs \<noteq> (documentCount E ci + 1) mod 2 ^ documentCount_bits E \<longrightarrow>
            fst (checkReferences E s ci) = throw InvalidNumberOfReferences)
    \<and> (length refs = (documentCount E ci + 1) mod 2 ^ documentCount_bits E
         \<and> filter typeIsSignedProperties refs = [] \<longrightarrow>
            fst (checkReferences E s ci) = throw NoSignedPropertiesRef)"
proof -
  have f: "filter isReferenceToSigProps refs = filter typeIsSignedProperties refs"
    using filter_isReferenceToSigProps assms(1,3) by simp
  have a: "length refs \<noteq> (documentCount E ci + 1) mod 2 ^ documentCount_bits E \<longrightarrow>
            fst (checkReferences E s ci) = throw InvalidNumberOfReferences"
    using assms(3) by (simp add: checkReferences_def)
  have b: "length refs = (documentCount E ci + 1) mod 2 ^ documentCount_bits E
           \<and> filter typeIsSignedProperties refs = [] \<longrightarrow>
            fst (checkReferences E s ci) = throw NoSignedPropertiesRef"
    using assms(3) f checkReferences_loop_none [of refs E s False]
    by (simp add: checkReferences_def)
  have c: "fst (checkReferences E s ci) = Inr () \<longrightarrow>
            length refs = documentCount E ci + 1
            \<and> length (filter typeIsSignedProperties refs) = 1"
  proof
    assume ok: "fst (checkReferences E s ci) = Inr ()"
    from checkReferences_ok [OF ok] assms(3) f
    have n: "length refs = (documentCount E ci + 1) mod 2 ^ documentCount_bits E"
      and one: "length (filter typeIsSignedProperties refs) = 1" by simp_all
    have "length (filter typeIsSignedProperties refs) \<le> length refs"
      by (rule length_filter_le)
    with one n have "0 < (documentCount E ci + 1) mod 2 ^ documentCount_bits E" by simp
    with assms(2) have "(documentCount E ci + 1) mod 2 ^ documentCount_bits E
                          = documentCount E ci + 1"
      unfolding countFits_def by (rule succ_mod_pos)
    with n one
    show "length refs = documentCount E ci + 1
            \<and> length (filter typeIsSignedProperties refs) = 1" by simp
  qed
  have d: "length refs \<noteq> documentCount E ci + 1
           \<or> length (filter typeIsSignedProperties refs) \<noteq> 1
          \<longrightarrow> (\<exists>e. fst (checkReferences E s ci) = Inl e)"
    using c by (cases "fst (checkReferences E s ci)") auto
  from a b c d show ?thesis by blast
qed

lemma example_reference_fits: "stringFits (type_attr example_reference)"
  by (simp add: stringFits_def example_reference_def npos_def)

lemma example_reference_typeIsSignedProperties: "typeIsSignedProperties example_reference"
  by (simp add: typeIsSignedProperties_def example_reference_def suffix_to_prefix)

lemma example_checkReferenceToSigProps:
  "checkReferenceToSigProps example_env (example_sig132 i policy up) example_reference = Inr ()"
  by (simp add: checkReferenceToSigProps_def calcDigestOnNode_def createDom_def
      canonicalizerFor_def defaultCanonicalizer_def bind_def Let_def example_defs)

lemma example_checkReferences:
  "checkReferences example_env (example_sig132 i policy up) 0 = (Inr (), 0)"
proof -
  have r: "isReferenceToSigProps example_reference"
    using isReferenceToSigProps_iff [OF example_reference_fits]
      example_reference_typeIsSignedProperties by simp
  have refs: "reference (signedInfo (sign (example_sig132 i policy up))) = [example_reference]"
    by (simp add: example_sig132_def example_signatureType_def)
  have d: "documentCount example_env 0 = 0" "documentCount_bits example_env = 64"
    "checkDocumentsBegin example_env 0 = 0"
    "checkDocumentsResult example_env 0"
    by (simp_all add: example_env_def)
  show ?thesis
    by (simp add: checkReferences_def checkReferencesToDocs_def refs d r
        example_checkReferenceToSigProps bind_def Let_def)
qed

text \<open>
  Instances: the example signature has one reference, which is the one to
  SignedProperties; its references pass in a container of no document and fail in a
  container of one document. Without any reference and with the largest count, the sum
  of line 635 is 0: the count test passes and the missing reference to
  SignedProperties is what fails.
\<close>

theorem checkReferences_count_and_SignedProperties_witness:
  "fst (checkReferences example_env (example_sig132 (Some ''S0'') None None) 0) = Inr ()
   \<and> length [example_reference] = documentCount example_env 0 + 1
   \<and> length (filter typeIsSignedProperties [example_reference]) = 1
   \<and> fst (checkReferences example_env (example_sig132 (Some ''S0'') None None) 1)
       = throw InvalidNumberOfReferences
   \<and> fst (checkReferences example_env
            (withReferences [] (example_sig132 (Some ''S0'') None None))
            18446744073709551615)
       = throw NoSignedPropertiesRef"
proof -
  let ?s = "example_sig132 (Some ''S0'') None None"
  have refs: "[example_reference] = reference (signedInfo (sign ?s))"
    by (simp add: example_sig132_def example_signatureType_def)
  have fits: "\<forall>r \<in> set (reference (signedInfo (sign ?s))). stringFits (type_attr r)"
    using example_reference_fits by (simp add: refs [symmetric])
  have norefs: "[] = reference (signedInfo (sign (withReferences [] ?s)))"
    by (simp add: withReferences_def)
  have nofits: "\<forall>r \<in> set (reference (signedInfo (sign (withReferences [] ?s)))).
                  stringFits (type_attr r)"
    by (simp add: withReferences_def)
  have c0: "countFits example_env 0" and c1: "countFits example_env 1"
    and c2: "countFits example_env 18446744073709551615"
    by (simp_all add: countFits_def example_env_def)
  have d: "length [example_reference]
             \<noteq> (documentCount example_env 1 + 1) mod 2 ^ documentCount_bits example_env"
    by (simp add: example_env_def)
  have w: "length ([] :: referenceType list)
             = (documentCount example_env 18446744073709551615 + 1)
                 mod 2 ^ documentCount_bits example_env
           \<and> filter typeIsSignedProperties [] = []"
    by (simp add: example_env_def)
  have ok: "fst (checkReferences example_env ?s 0) = Inr ()"
    by (simp add: example_checkReferences)
  note t0 = checkReferences_count_and_SignedProperties
              [OF fits c0 refs]
  note t1 = checkReferences_count_and_SignedProperties
              [OF fits c1 refs]
  note t2 = checkReferences_count_and_SignedProperties
              [OF nofits c2 norefs]
  from t0 ok have "length [example_reference] = documentCount example_env 0 + 1
      \<and> length (filter typeIsSignedProperties [example_reference]) = 1"
    by blast
  moreover from t1 d
  have "fst (checkReferences example_env ?s 1) = throw InvalidNumberOfReferences"
    by blast
  moreover from t2 w
  have "fst (checkReferences example_env (withReferences [] ?s) 18446744073709551615)
          = throw NoSignedPropertiesRef"
    by blast
  ultimately show ?thesis using ok by blast
qed

subsection \<open>Signature::parse\<close>

text \<open>
  What \<^verbatim>\<open>parse\<close> has checked of a signature it returns: one Object, with the
  QualifyingProperties of exactly one dialect, one in number.
\<close>

lemma parse_shape:
  assumes "parse E xml_buf = Inr s"
  shows "\<exists>sig obj. dsig_signature E xml_buf = Some sig \<and> sign s = sig \<and> xml s = xml_buf
           \<and> object sig = [obj]
           \<and> (case dialect_of s of
                 XAdES111Signature \<Rightarrow>
                   qualifyingProperties obj = [] \<and> length (qualifyingProperties1 obj) = 1
               | XAdES132Signature \<Rightarrow>
                   qualifyingProperties1 obj = [] \<and> length (qualifyingProperties obj) = 1)"
proof (cases "dsig_signature E xml_buf")
  case None
  with assms show ?thesis by (simp add: parse_def throw_def)
next
  case (Some sig)
  show ?thesis
  proof (cases "object sig")
    case Nil
    with Some assms show ?thesis by (simp add: parse_def throw_def)
  next
    case (Cons obj rest)
    with Some assms have "rest = []"
      by (cases rest) (simp_all add: parse_def throw_def)
    with Some Cons assms show ?thesis
      by (auto simp: parse_def throw_def Let_def split: if_splits)
  qed
qed

lemma example_parse132:
  "parse (example_env_parsing (sign (example_sig132 i policy up))) [60, 63]
     = Inr (example_sig132 i policy up)"
  by (simp add: parse_def Let_def example_env_parsing_def example_sig132_def
      example_signatureType_def)

lemma example_parse111:
  "parse (example_env_parsing (sign (example_sig111 i policy up))) [60, 63]
     = Inr (example_sig111 i policy up)"
  by (simp add: parse_def Let_def example_env_parsing_def example_sig111_def
      example_signatureType_def)

subsection \<open>Signature::validateOffline\<close>

lemma catchStackException_collects:
  "throwsOnlyStackExceptions r \<Longrightarrow> catchStackException causes r = Inr (causes @ errors_of r)"
  by (cases r) (simp_all add: catchStackException_def errors_of_def throwsOnlyStackExceptions_def)

text \<open>
  What \<^verbatim>\<open>validateOffline\<close> does when each of its three blocks ends normally or with
  a stack exception: every block runs, the exceptions of the failing blocks are the
  causes of "Signature is invalid", and the function returns normally when there is
  none.
\<close>

lemma validateOffline_collects:
  assumes "throwsOnlyStackExceptions (checkQualifyingProperties s)"
    and "throwsOnlyStackExceptions (fst (validateOffline_block2 E s ci))"
    and "throwsOnlyStackExceptions (checkSigningCertificate E s store)"
  shows "fst (validateOffline E s store ci) =
     (let causes = errors_of (checkQualifyingProperties s)
                   @ errors_of (fst (validateOffline_block2 E s ci))
                   @ errors_of (checkSigningCertificate E s store)
      in if causes = [] then Inr () else Inl (StackException SignatureIsInvalid causes))"
  using assms
  by (cases "validateOffline_block2 E s ci")
     (simp add: validateOffline_def catchStackException_collects Let_def)

text \<open>
  C3. The claim is that \<^verbatim>\<open>validateOffline\<close>, for every signature and trust store,
  runs its three groups of checks whatever the others do and throws the combined error
  if and only if a group failed. The code at a parsed v1.3.2 signature without Id
  attribute, with a signature method that is not supported and no trust store: the
  second group would throw "Unsupported SignedInfo signature method" and the third
  "Unable to verify signing certificate", but the first group dereferences the absent
  Id, and \<^verbatim>\<open>validateOffline\<close> ends there, with neither a combined error nor the other
  groups run.
\<close>

theorem validateOffline_absent_Id:
  "parse (example_env_parsing
            (sign (withSignatureMethod ''http://www.w3.org/2001/04/xmldsig-more#md5''
                     (example_sig132 None None None))))
         [60, 63]
     = Inr (withSignatureMethod ''http://www.w3.org/2001/04/xmldsig-more#md5''
              (example_sig132 None None None))
   \<and> validateOffline example_env
        (withSignatureMethod ''http://www.w3.org/2001/04/xmldsig-more#md5''
           (example_sig132 None None None)) None 0
     = (Inl AbsentOptional, 0)
   \<and> fst (validateOffline_block2 example_env
        (withSignatureMethod ''http://www.w3.org/2001/04/xmldsig-more#md5''
           (example_sig132 None None None)) 0)
     = throw UnsupportedSignatureMethod
   \<and> checkSigningCertificate example_env
        (withSignatureMethod ''http://www.w3.org/2001/04/xmldsig-more#md5''
           (example_sig132 None None None)) None
     = throw UnableToVerifySigningCertificate"
proof -
  let ?s = "withSignatureMethod ''http://www.w3.org/2001/04/xmldsig-more#md5''
              (example_sig132 None None None)"
  have p: "parse (example_env_parsing (sign ?s)) [60, 63] = Inr ?s"
    by (simp add: parse_def Let_def example_env_parsing_def example_sig132_def
        example_signatureType_def withSignatureMethod_def)
  have q: "checkQualifyingProperties ?s = Inl AbsentOptional"
    by (simp add: check_defs example_sig132_def example_signatureType_def
        withSignatureMethod_def)
  have v: "validateOffline example_env ?s None 0 = (Inl AbsentOptional, 0)"
    by (simp add: validateOffline_def catchStackException_def q)
  have m: "checkSignatureMethod example_env ?s = throw UnsupportedSignatureMethod"
    by (simp add: checkSignatureMethod_def getSignatureMethodAlgorithmType_def
        withSignatureMethod_def example_sig132_def example_signatureType_def example_env_def)
  have b: "fst (validateOffline_block2 example_env ?s 0) = throw UnsupportedSignatureMethod"
    by (simp add: validateOffline_block2_def m throw_def)
  have g: "getSigningCertificate example_env ?s = Inr (example_x509 [48, 130])"
    by (simp add: getSigningCertificate_def getSigningX509CertificateType_def bind_def
        example_sig132_def example_signatureType_def example_env_def withSignatureMethod_def)
  have c: "checkSigningCertificate example_env ?s None = throw UnableToVerifySigningCertificate"
    by (simp add: checkSigningCertificate_def g bind_def)
  from p v b c show ?thesis by simp
qed

text \<open>
  C4. For a document that the schema parser accepts, with the tree \<open>sig\<close>: \<^verbatim>\<open>parse\<close>
  throws ("Signature block 'Object' is missing." or "Signature block contains more
  than one 'Object' block.") unless \<open>sig\<close> has exactly one Object; with one Object it
  returns an \<^verbatim>\<open>XAdES111Signature\<close> when the QualifyingProperties sequence of v1.3.2
  is empty and that of v1.1.1 has one element, an \<^verbatim>\<open>XAdES132Signature\<close> when the
  sequence of v1.1.1 is empty and that of v1.3.2 has one element, each holding the
  tree and the buffer it was given; and it throws in every other case (both empty,
  both non-empty, or more than one element).
\<close>

theorem parse_dialect:
  assumes "dsig_signature E xml_buf = Some sig"
  shows "parse E xml_buf =
     (if length (object sig) \<noteq> 1
      then throw (if object sig = [] then ObjectMissing else MoreThanOneObject)
      else if qualifyingProperties (hd (object sig)) = []
              \<and> length (qualifyingProperties1 (hd (object sig))) = 1
      then Inr \<lparr>sign = sig, xml = xml_buf, dialect_of = XAdES111Signature\<rparr>
      else if qualifyingProperties1 (hd (object sig)) = []
              \<and> length (qualifyingProperties (hd (object sig))) = 1
      then Inr \<lparr>sign = sig, xml = xml_buf, dialect_of = XAdES132Signature\<rparr>
      else throw (if qualifyingProperties (hd (object sig)) = []
                     \<and> qualifyingProperties1 (hd (object sig)) = []
                  then QualifyingPropertiesMissing
                  else MoreThanOneQualifyingProperties))"
  using assms
  by (cases "object sig") (auto simp: parse_def Let_def throw_def)

text \<open>
  Instances: a tree of each dialect, and a tree with the QualifyingProperties of both.
\<close>

theorem parse_dialect_witness:
  "parse (example_env_parsing (sign (example_sig132 (Some ''S0'') None None))) [60, 63]
     = Inr \<lparr>sign = sign (example_sig132 (Some ''S0'') None None), xml = [60, 63],
            dialect_of = XAdES132Signature\<rparr>
   \<and> parse (example_env_parsing (sign (example_sig111 (Some ''S0'') ''P'' None))) [60, 63]
     = Inr \<lparr>sign = sign (example_sig111 (Some ''S0'') ''P'' None), xml = [60, 63],
            dialect_of = XAdES111Signature\<rparr>
   \<and> parse (example_env_parsing (example_signatureType (Some ''S0'')
        [\<lparr>qualifyingProperties = [example_qp132 None None],
          qualifyingProperties1 = [example_qp111 ''P'' None]\<rparr>])) [60, 63]
     = throw MoreThanOneQualifyingProperties"
proof -
  have h: "dsig_signature (example_env_parsing sig) [60, 63] = Some sig" for sig
    by (simp add: example_env_parsing_def)
  from parse_dialect [OF h, where sig = "sign (example_sig132 (Some ''S0'') None None)"]
    parse_dialect [OF h, where sig = "sign (example_sig111 (Some ''S0'') ''P'' None)"]
    parse_dialect [OF h, where sig = "example_signatureType (Some ''S0'')
        [\<lparr>qualifyingProperties = [example_qp132 None None],
          qualifyingProperties1 = [example_qp111 ''P'' None]\<rparr>]"]
  show ?thesis
    by (simp add: example_sig132_def example_sig111_def example_signatureType_def)
qed

subsection \<open>getOCSPResponseValue\<close>

text \<open>
  C5. The claim is that \<^verbatim>\<open>getOCSPResponseValue\<close> returns the first
  EncapsulatedOCSPValue or throws when an element of the path is absent, with no
  unguarded dereference. The code at a parsed signature of either dialect whose
  RevocationValues has no OCSPValues: \<^verbatim>\<open>t.oCSPValues().get()\<close> dereferences the absent
  optional, where UnsignedProperties, UnsignedSignatureProperties and RevocationValues
  are guarded by a throw.
\<close>

theorem getOCSPResponseValue_absent_OCSPValues:
  "parse (example_env_parsing
            (sign (example_sig132 (Some ''S0'') None (Some (example_up132 None))))) [60, 63]
     = Inr (example_sig132 (Some ''S0'') None (Some (example_up132 None)))
   \<and> getOCSPResponseValue (example_sig132 (Some ''S0'') None (Some (example_up132 None)))
     = Inl AbsentOptional
   \<and> parse (example_env_parsing
            (sign (example_sig111 (Some ''S0'') ''P'' (Some (example_up111 None))))) [60, 63]
     = Inr (example_sig111 (Some ''S0'') ''P'' (Some (example_up111 None)))
   \<and> getOCSPResponseValue (example_sig111 (Some ''S0'') ''P'' (Some (example_up111 None)))
     = Inl AbsentOptional
   \<and> getOCSPResponseValue (example_sig132 (Some ''S0'') None None)
     = throw MissingUnsignedProperties"
proof -
  have a: "getOCSPResponseValue (example_sig132 (Some ''S0'') None (Some (example_up132 None)))
             = Inl AbsentOptional"
    by (simp add: getOCSPResponseValue_def getOCSPResponseValue132_def unsignSigProps132_def
        bind_def at_def get_def example_sig132_def example_signatureType_def example_qp132_def
        example_up132_def)
  have b: "getOCSPResponseValue (example_sig111 (Some ''S0'') ''P'' (Some (example_up111 None)))
             = Inl AbsentOptional"
    by (simp add: getOCSPResponseValue_def getOCSPResponseValue111_def unsignSigProps111_def
        bind_def at_def get_def example_sig111_def example_signatureType_def example_qp111_def
        example_up111_def)
  have c: "getOCSPResponseValue (example_sig132 (Some ''S0'') None None)
             = throw MissingUnsignedProperties"
    by (simp add: getOCSPResponseValue_def getOCSPResponseValue132_def unsignSigProps132_def
        bind_def at_def get_def throw_def example_sig132_def example_signatureType_def
        example_qp132_def)
  from a b c example_parse132 example_parse111 show ?thesis by simp
qed

subsection \<open>Signature::calcDigestOnNode\<close>

lemma canonicalizerFor_cases:
  assumes "distinct (supportedCanonicalizationMethods E)"
  shows "(alg = uRI_ID_C14N_NOC E \<longrightarrow> canonicalizerFor E alg = Inr defaultCanonicalizer)
    \<and> (alg = uRI_ID_C14N_COM E \<longrightarrow>
         canonicalizerFor E alg = Inr (defaultCanonicalizer\<lparr>commentsProcessing := True\<rparr>))
    \<and> (alg = uRI_ID_EXC_C14N_NOC E \<longrightarrow>
         canonicalizerFor E alg = Inr (defaultCanonicalizer\<lparr>exclusive := Some ''ds''\<rparr>))
    \<and> (\<forall>noc com. uRI_ID_C14N11 E = Some (noc, com) \<longrightarrow>
         (alg = noc \<longrightarrow>
            canonicalizerFor E alg = Inr (defaultCanonicalizer\<lparr>inclusive11 := True\<rparr>))
         \<and> (alg = com \<longrightarrow>
            canonicalizerFor E alg
              = Inr (defaultCanonicalizer\<lparr>inclusive11 := True, commentsProcessing := True\<rparr>)))
    \<and> (alg \<notin> set (supportedCanonicalizationMethods E) \<longrightarrow>
         canonicalizerFor E alg = throw UnsupportedCanonicalizationMethod)"
  using assms
  by (auto simp: canonicalizerFor_def supportedCanonicalizationMethods_def Let_def
      split: option.splits)

lemma calcDigestOnNode_one_node:
  assumes "createDom E s = Inr doc" and "getElementsByTagNameNS E doc ns tagName = Some [node]"
  shows "calcDigestOnNode E s calc ns tagName =
     bind (canonicalizerFor E (canonicalizationMethod (signedInfo (sign s))))
       (\<lambda>canon. Inr (d_hash calc (outputBuffer E canon doc node)))"
  using assms by (simp add: calcDigestOnNode_def bind_def)

text \<open>
  C6, as the claim states it, fails in a build whose XML-Security headers do not define
  \<^verbatim>\<open>URI_ID_C14N11_NOC\<close>: there the \<^verbatim>\<open>#ifdef\<close> leaves three cases, and the algorithm of
  C14N 1.1 is answered with "Unsupported SignedInfo canonicalization method".
\<close>

theorem calcDigestOnNode_c14n11_counterexample:
  "calcDigestOnNode (example_env\<lparr>uRI_ID_C14N11 := None\<rparr>)
     (withCanonicalizationMethod ''http://www.w3.org/2006/12/xml-c14n11''
        (example_sig132 (Some ''S0'') None None))
     (example_digest example_sha256) xADES132_NAMESPACE ''SignedProperties''
   = throw UnsupportedCanonicalizationMethod"
  by (simp add: calcDigestOnNode_def createDom_def canonicalizerFor_def bind_def throw_def
      Let_def example_env_def withCanonicalizationMethod_def example_sig132_def
      example_signatureType_def)

text \<open>
  C6, amended. Where the document parses and has exactly one node of the given name,
  and the algorithm URIs that the build knows differ from each other, \<^verbatim>\<open>calcDigestOnNode\<close>
  dispatches on the CanonicalizationMethod of SignedInfo: C14N 1.0 without comments
  leaves the canonicalizer as constructed; C14N 1.0 with comments turns comment
  processing on; exclusive C14N 1.0 sets the exclusive mode with the prefix list
  \<open>ds\<close>; and, only when the build defines \<^verbatim>\<open>URI_ID_C14N11_NOC\<close>, C14N 1.1 sets the
  inclusive 1.1 mode, with comment processing for its variant with comments. It throws
  "Unsupported SignedInfo canonicalization method" if and only if the URI is none of
  these: none of three when the macro is not defined, none of five when it is.
\<close>

theorem calcDigestOnNode_dispatch:
  assumes "createDom E s = Inr doc"
    and "getElementsByTagNameNS E doc ns tagName = Some [node]"
    and "distinct (supportedCanonicalizationMethods E)"
    and "alg = canonicalizationMethod (signedInfo (sign s))"
    and "out = (\<lambda>canon. Inr (d_hash calc (outputBuffer E canon doc node)))"
  shows "(alg = uRI_ID_C14N_NOC E \<longrightarrow>
           calcDigestOnNode E s calc ns tagName = out defaultCanonicalizer)
    \<and> (alg = uRI_ID_C14N_COM E \<longrightarrow>
           calcDigestOnNode E s calc ns tagName
             = out (defaultCanonicalizer\<lparr>commentsProcessing := True\<rparr>))
    \<and> (alg = uRI_ID_EXC_C14N_NOC E \<longrightarrow>
           calcDigestOnNode E s calc ns tagName
             = out (defaultCanonicalizer\<lparr>exclusive := Some ''ds''\<rparr>))
    \<and> (\<forall>noc com. uRI_ID_C14N11 E = Some (noc, com) \<longrightarrow>
         (alg = noc \<longrightarrow>
            calcDigestOnNode E s calc ns tagName
              = out (defaultCanonicalizer\<lparr>inclusive11 := True\<rparr>))
         \<and> (alg = com \<longrightarrow>
            calcDigestOnNode E s calc ns tagName
              = out (defaultCanonicalizer\<lparr>inclusive11 := True, commentsProcessing := True\<rparr>)))
    \<and> ((calcDigestOnNode E s calc ns tagName = throw UnsupportedCanonicalizationMethod)
          = (alg \<notin> set (supportedCanonicalizationMethods E)))
    \<and> (set (supportedCanonicalizationMethods E)
          = {uRI_ID_C14N_NOC E, uRI_ID_C14N_COM E, uRI_ID_EXC_C14N_NOC E}
            \<union> (case uRI_ID_C14N11 E of None \<Rightarrow> {} | Some (noc, com) \<Rightarrow> {noc, com}))"
proof -
  have c: "calcDigestOnNode E s calc ns tagName = bind (canonicalizerFor E alg) out"
    using calcDigestOnNode_one_node [OF assms(1,2)] assms(4,5) by simp
  have u: "(bind (canonicalizerFor E alg) out = throw UnsupportedCanonicalizationMethod)
          = (alg \<notin> set (supportedCanonicalizationMethods E))"
    using assms(3,5)
    by (auto simp: canonicalizerFor_def supportedCanonicalizationMethods_def bind_def throw_def
        Let_def split: option.splits)
  have s: "set (supportedCanonicalizationMethods E)
          = {uRI_ID_C14N_NOC E, uRI_ID_C14N_COM E, uRI_ID_EXC_C14N_NOC E}
            \<union> (case uRI_ID_C14N11 E of None \<Rightarrow> {} | Some (noc, com) \<Rightarrow> {noc, com})"
    by (auto simp: supportedCanonicalizationMethods_def split: option.splits)
  from canonicalizerFor_cases [OF assms(3), of alg] c u s show ?thesis
    by (simp add: bind_def)
qed

text \<open>
  Instances, in the build with C14N 1.1: exclusive C14N gives the digest \<open>[2]\<close> of the
  example canonicalizer in exclusive mode, C14N 1.1 with comments gives \<open>[5]\<close>, and an
  unknown URI is refused.
\<close>

theorem calcDigestOnNode_dispatch_witness:
  "calcDigestOnNode example_env
     (withCanonicalizationMethod ''http://www.w3.org/2001/10/xml-exc-c14n#''
        (example_sig132 (Some ''S0'') None None))
     (example_digest example_sha256) xADES132_NAMESPACE ''SignedProperties'' = Inr [2]
   \<and> calcDigestOnNode example_env
     (withCanonicalizationMethod ''http://www.w3.org/2006/12/xml-c14n11#WithComments''
        (example_sig132 (Some ''S0'') None None))
     (example_digest example_sha256) xADES132_NAMESPACE ''SignedProperties'' = Inr [5]
   \<and> calcDigestOnNode example_env
     (withCanonicalizationMethod ''http://www.w3.org/2001/10/xml-exc-c14n#WithComments''
        (example_sig132 (Some ''S0'') None None))
     (example_digest example_sha256) xADES132_NAMESPACE ''SignedProperties''
     = throw UnsupportedCanonicalizationMethod"
proof -
  let ?s = "\<lambda>uri. withCanonicalizationMethod uri (example_sig132 (Some ''S0'') None None)"
  let ?out = "\<lambda>canon. Inr (d_hash (example_digest example_sha256)
                              (outputBuffer example_env canon () (0::nat)))
                :: error + bytes"
  have h1: "createDom example_env (?s uri) = Inr ()" for uri
    by (simp add: createDom_def example_env_def)
  have h2: "getElementsByTagNameNS example_env () xADES132_NAMESPACE ''SignedProperties''
              = Some [0]"
    by (simp add: example_env_def)
  have h3: "distinct (supportedCanonicalizationMethods example_env)"
    by (simp add: supportedCanonicalizationMethods_def example_env_def)
  have h4: "uri = canonicalizationMethod (signedInfo (sign (?s uri)))" for uri
    by (simp add: withCanonicalizationMethod_def)
  have e: "uRI_ID_EXC_C14N_NOC example_env = ''http://www.w3.org/2001/10/xml-exc-c14n#''"
    "uRI_ID_C14N11 example_env = Some (''http://www.w3.org/2006/12/xml-c14n11'',
                                       ''http://www.w3.org/2006/12/xml-c14n11#WithComments'')"
    "''http://www.w3.org/2001/10/xml-exc-c14n#WithComments''
       \<notin> set (supportedCanonicalizationMethods example_env)"
    by (simp_all add: supportedCanonicalizationMethods_def example_env_def)
  have o: "?out (defaultCanonicalizer\<lparr>exclusive := Some ''ds''\<rparr>) = Inr [2]"
    "?out (defaultCanonicalizer\<lparr>inclusive11 := True, commentsProcessing := True\<rparr>) = Inr [5]"
    by (simp_all add: defaultCanonicalizer_def example_env_def example_digest_def)
  from calcDigestOnNode_dispatch [OF h1 h2 h3 h4 refl,
         where alg = "''http://www.w3.org/2001/10/xml-exc-c14n#''"
           and calc = "example_digest example_sha256"]
    calcDigestOnNode_dispatch [OF h1 h2 h3 h4 refl,
         where alg = "''http://www.w3.org/2006/12/xml-c14n11#WithComments''"
           and calc = "example_digest example_sha256"]
    calcDigestOnNode_dispatch [OF h1 h2 h3 h4 refl,
         where alg = "''http://www.w3.org/2001/10/xml-exc-c14n#WithComments''"
           and calc = "example_digest example_sha256"]
  show ?thesis
    using e o by simp
qed

subsection \<open>checkQualifyingProperties and the signature policy\<close>

lemma checkSignedSignatureProperties132_ok:
  assumes "checkSignedSignatureProperties132 s = Inr ()"
  shows "\<exists>obj qp sp. object (sign s) = [obj] \<and> qualifyingProperties obj = [qp]
           \<and> signedProperties132 qp = Some sp
           \<and> signaturePolicyIdentifier132 (signedSignatureProperties132 sp) = None"
proof -
  from assms have l: "length (object (sign s)) = 1"
    by (auto simp: checkSignedSignatureProperties132_def Let_def throw_def split: if_splits)
  then obtain obj where o: "object (sign s) = [obj]"
    using length1E by blast
  with assms have "length (qualifyingProperties obj) = 1"
    by (auto simp: checkSignedSignatureProperties132_def Let_def throw_def split: if_splits)
  then obtain qp where q: "qualifyingProperties obj = [qp]"
    using length1E by blast
  with o assms show ?thesis
    by (auto simp: checkSignedSignatureProperties132_def Let_def throw_def
        split: if_splits option.splits)
qed

lemma checkQualifyingProperties132_policy:
  assumes "hasSignaturePolicyIdentifier132 (sign s)"
  shows "checkQualifyingProperties132 s \<noteq> Inr ()"
proof
  assume ok: "checkQualifyingProperties132 s = Inr ()"
  then have "checkSignedSignatureProperties132 s = Inr ()"
    by (auto simp: checkQualifyingProperties132_def bind_def at_def get_def throw_def Let_def
        split: if_splits sum.splits option.splits)
  from checkSignedSignatureProperties132_ok [OF this] assms show False
    by (auto simp: hasSignaturePolicyIdentifier132_def)
qed

lemma checkQualifyingProperties132_policy_error:
  assumes "hasSignaturePolicyIdentifier132 (sign s)"
    and "length (object (sign s)) = 1"
    and "length (qualifyingProperties (hd (object (sign s)))) = 1"
    and "Some (target132 (hd (qualifyingProperties (hd (object (sign s))))))
            = map_option (\<lambda>i. ''#'' @ i) (id_attr (sign s))"
  shows "checkQualifyingProperties132 s = throw SignaturePolicyNotValid"
proof -
  from assms(2) obtain obj where o: "object (sign s) = [obj]"
    using length1E by blast
  with assms(3) obtain qp where q: "qualifyingProperties obj = [qp]"
    using length1E by fastforce
  from assms(4) o q obtain i where i: "id_attr (sign s) = Some i" "target132 qp = ''#'' @ i"
    by (cases "id_attr (sign s)") auto
  from assms(1) o q obtain sp where
    sp: "signedProperties132 qp = Some sp"
        "signaturePolicyIdentifier132 (signedSignatureProperties132 sp) \<noteq> None"
    by (auto simp: hasSignaturePolicyIdentifier132_def split: option.splits)
  from o q sp have "checkSignedSignatureProperties132 s = throw SignaturePolicyNotValid"
    by (simp add: checkSignedSignatureProperties132_def Let_def)
  with o q i show ?thesis
    by (simp add: checkQualifyingProperties132_def bind_def at_def get_def throw_def)
qed

lemma checkSignedSignatureProperties111_policy:
  "checkSignedSignatureProperties111 (s\<lparr>sign := withSignaturePolicyIdentifier111 p (sign s)\<rparr>)
     = checkSignedSignatureProperties111 s"
proof (cases "object (sign s)")
  case Nil
  then show ?thesis
    by (simp add: checkSignedSignatureProperties111_def withSignaturePolicyIdentifier111_def)
next
  case (Cons obj rest)
  show ?thesis
  proof (cases "qualifyingProperties1 obj")
    case Nil
    with Cons show ?thesis
      by (simp add: checkSignedSignatureProperties111_def withSignaturePolicyIdentifier111_def
          Let_def)
  next
    case (Cons qp qps)
    with \<open>object (sign s) = obj # rest\<close> show ?thesis
      by (simp add: checkSignedSignatureProperties111_def withSignaturePolicyIdentifier111_def
          Let_def split: option.splits)
  qed
qed

lemma checkQualifyingProperties111_policy:
  "checkQualifyingProperties111 (s\<lparr>sign := withSignaturePolicyIdentifier111 p (sign s)\<rparr>)
     = checkQualifyingProperties111 s"
proof (cases "object (sign s)")
  case Nil
  then show ?thesis
    by (simp add: checkQualifyingProperties111_def withSignaturePolicyIdentifier111_def
        bind_def at_def)
next
  case (Cons obj rest)
  show ?thesis
  proof (cases "qualifyingProperties1 obj")
    case Nil
    with Cons show ?thesis
      by (simp add: checkQualifyingProperties111_def withSignaturePolicyIdentifier111_def
          bind_def at_def Let_def)
  next
    case (Cons qp qps)
    with \<open>object (sign s) = obj # rest\<close> show ?thesis
      unfolding checkQualifyingProperties111_def checkSignedSignatureProperties111_policy
      by (simp add: withSignaturePolicyIdentifier111_def bind_def at_def Let_def
          split: sum.splits)
  qed
qed

text \<open>
  C7. A v1.3.2 signature that has a SignaturePolicyIdentifier in its
  SignedSignatureProperties never passes \<^verbatim>\<open>checkQualifyingProperties\<close>; where the
  checks before \<^verbatim>\<open>checkSignedSignatureProperties\<close> pass (one Object, one
  QualifyingProperties, the target is \<open>#\<close> followed by the Id), the exception is
  "Signature policy is not valid". For a v1.1.1 signature the result of
  \<^verbatim>\<open>checkQualifyingProperties\<close> does not depend on the SignaturePolicyIdentifier:
  replacing it by any other leaves the result as it is.
\<close>

theorem signaturePolicyIdentifier_enforced_only_in_132:
  "(dialect_of s = XAdES132Signature \<and> hasSignaturePolicyIdentifier132 (sign s)
      \<longrightarrow> checkQualifyingProperties s \<noteq> Inr ())
   \<and> (dialect_of s = XAdES132Signature \<and> hasSignaturePolicyIdentifier132 (sign s)
        \<and> length (object (sign s)) = 1
        \<and> length (qualifyingProperties (hd (object (sign s)))) = 1
        \<and> Some (target132 (hd (qualifyingProperties (hd (object (sign s))))))
            = map_option (\<lambda>i. ''#'' @ i) (id_attr (sign s))
      \<longrightarrow> checkQualifyingProperties s = throw SignaturePolicyNotValid)
   \<and> (dialect_of s = XAdES111Signature
      \<longrightarrow> checkQualifyingProperties (s\<lparr>sign := withSignaturePolicyIdentifier111 p (sign s)\<rparr>)
           = checkQualifyingProperties s)"
  using checkQualifyingProperties132_policy [of s]
    checkQualifyingProperties132_policy_error [of s]
    checkQualifyingProperties111_policy [of p s]
  by (simp add: checkQualifyingProperties_def)

text \<open>
  Instances: the v1.3.2 example with a policy is refused, the same example without
  one passes, and the v1.1.1 example passes with its policy and with another one.
\<close>

theorem signaturePolicyIdentifier_enforced_only_in_132_witness:
  "checkQualifyingProperties (example_sig132 (Some ''S0'') (Some ''urn:policy'') None)
     = throw SignaturePolicyNotValid
   \<and> checkQualifyingProperties (example_sig132 (Some ''S0'') None None) = Inr ()
   \<and> checkQualifyingProperties (example_sig111 (Some ''S0'') ''urn:policy'' None) = Inr ()
   \<and> checkQualifyingProperties
       ((example_sig111 (Some ''S0'') ''urn:policy'' None)
          \<lparr>sign := withSignaturePolicyIdentifier111 ''urn:other''
                     (sign (example_sig111 (Some ''S0'') ''urn:policy'' None))\<rparr>) = Inr ()"
proof -
  let ?a = "example_sig132 (Some ''S0'') (Some ''urn:policy'') None"
  let ?b = "example_sig111 (Some ''S0'') ''urn:policy'' None"
  have a: "dialect_of ?a = XAdES132Signature \<and> hasSignaturePolicyIdentifier132 (sign ?a)
        \<and> length (object (sign ?a)) = 1
        \<and> length (qualifyingProperties (hd (object (sign ?a)))) = 1
        \<and> Some (target132 (hd (qualifyingProperties (hd (object (sign ?a))))))
            = map_option (\<lambda>i. ''#'' @ i) (id_attr (sign ?a))"
    by (simp add: hasSignaturePolicyIdentifier132_def example_sig132_def
        example_signatureType_def example_qp132_def)
  have b: "dialect_of ?b = XAdES111Signature"
    by (simp add: example_sig111_def)
  have c: "checkQualifyingProperties (example_sig132 (Some ''S0'') None None) = Inr ()"
    by (simp add: check_defs example_sig132_def example_signatureType_def example_qp132_def)
  have d: "checkQualifyingProperties ?b = Inr ()"
    by (simp add: check_defs example_sig111_def example_signatureType_def example_qp111_def)
  from signaturePolicyIdentifier_enforced_only_in_132 [where s = ?a]
    signaturePolicyIdentifier_enforced_only_in_132 [where s = ?b and p = "''urn:other''"]
    a b c d
  show ?thesis by simp
qed

subsection \<open>SignatureValidator::prepare\<close>

text \<open>
  An issuer name without \<open>CN=\<close>: \<^verbatim>\<open>find\<close> returns npos, to which 3 is added modulo
  \<open>2^64\<close>, so the substring starts at index 2 and \<^verbatim>\<open>prepare\<close> looks up part of another
  attribute.
\<close>

lemma issure_cn_without_CN: "issure_cn ''O=SK,C=EE'' = Inr ''SK''"
proof -
  have "List.find (occurs_at ''O=SK,C=EE'' ''CN='') [0 ..< Suc (length ''O=SK,C=EE'')] = None"
    by (simp add: find_None_iff occurs_at_def)
  then have f: "str_find ''O=SK,C=EE'' ''CN='' 0 = npos"
    by (simp add: str_find_def)
  have p: "size_t (to_int ((npos + 3) mod 2 ^ 64)) = 2"
    by (simp add: npos_def to_int_def size_t_def)
  have c: "str_find ''O=SK,C=EE'' '','' 2 = 4"
    using str_find_char [of 2 "''O=SK,C=EE''" "CHR '',''"] by simp
  show ?thesis
    unfolding issure_cn_def f Let_def p c
    by (simp add: substr_def size_t_def)
qed

text \<open>
  Where the issuer name has a \<open>CN=\<close>: for a signing certificate \<open>c\<close> whose issuer name
  (a string that an int can index) has its first \<open>CN=\<close> right after \<open>pre\<close>, followed by
  \<open>rest\<close>, the issuer CN of \<^verbatim>\<open>prepare\<close> is \<open>rest\<close> up to its first comma, or all of
  \<open>rest\<close> when it has none. \<^verbatim>\<open>prepare\<close> throws "Failed to find ocsp responder." when the
  configuration has no OCSPConf for that CN, whatever the certificate store holds;
  when the configuration has one, it throws "Failed to load issuer certificate." if
  the store does not have the issuer certificate, and otherwise goes on to load the
  responder certificates and to build the client from the OCSPConf.
\<close>

theorem prepare_issuer_CN:
  assumes "getSigningCertificate E s = Inr c"
    and "firstOccurrence ''CN='' (issuerName c) pre rest"
    and "length (issuerName c) < 2 ^ 31"
    and "cn = takeWhile (\<lambda>x. x \<noteq> CHR '','') rest"
  shows "issure_cn (issuerName c) = Inr cn
    \<and> (\<not> hasOCSPConf conf cn \<longrightarrow>
          fst (prepare E conf s v) = throw FailedToFindOcspResponder)
    \<and> (hasOCSPConf conf cn \<and> getCert conf (issuerNameAsn1 c) = None \<longrightarrow>
          fst (prepare E conf s v) = throw FailedToLoadIssuerCertificate)
    \<and> (hasOCSPConf conf cn \<and> getCert conf (issuerNameAsn1 c) \<noteq> None \<longrightarrow>
          fst (prepare E conf s v) =
            (case loadX509Stack E (conf_cert (getOCSPConf conf cn)) of
               Inl e \<Rightarrow> Inl e
             | Inr certs \<Rightarrow>
                 Inr \<lparr>ocsp_url = url (getOCSPConf conf cn),
                      ocsp_skew = skew (getOCSPConf conf cn),
                      ocsp_maxAge = maxAge (getOCSPConf conf cn),
                      ocsp_certs = certs\<rparr>))"
proof -
  have cn: "issure_cn (issuerName c) = Inr cn"
    using issure_cn_firstOccurrence [OF assms(2,3)] assms(4) by simp
  with assms(1) show ?thesis
    by (auto simp: prepare_def Let_def split: sum.splits)
qed

text \<open>
  Instances: the issuer \<open>C=EE,CN=ESTEID-SK 2011,O=AS Sertifitseerimiskeskus\<close> of the
  example certificate, with a configuration that does not know the responder (and has
  no issuer certificate either), and with one that knows the responder but not the
  issuer certificate.
\<close>

theorem prepare_issuer_CN_witness:
  "issure_cn (issuerName (example_x509 [48, 130])) = Inr ''ESTEID-SK 2011''
   \<and> fst (prepare example_env (example_conf False False)
            (example_sig132 (Some ''S0'') None None) newSignatureValidator)
       = throw FailedToFindOcspResponder
   \<and> fst (prepare example_env (example_conf True False)
            (example_sig132 (Some ''S0'') None None) newSignatureValidator)
       = throw FailedToLoadIssuerCertificate"
proof -
  have h2: "firstOccurrence ''CN='' (issuerName (example_x509 [48, 130])) ''C=EE,''
              ''ESTEID-SK 2011,O=AS Sertifitseerimiskeskus''"
    using example_issuer_firstOccurrence by (simp add: example_x509_def)
  have h3: "length (issuerName (example_x509 [48, 130])) < 2 ^ 31"
    by (simp add: example_x509_def example_issuer_def)
  have h4: "''ESTEID-SK 2011''
              = takeWhile (\<lambda>x. x \<noteq> CHR '','') ''ESTEID-SK 2011,O=AS Sertifitseerimiskeskus''"
    by simp
  from prepare_issuer_CN [OF example_getSigningCertificate h2 h3 h4,
         where conf = "example_conf False False" and v = newSignatureValidator]
    prepare_issuer_CN [OF example_getSigningCertificate h2 h3 h4,
         where conf = "example_conf True False" and v = newSignatureValidator]
  show ?thesis
    by (simp add: example_conf_def)
qed

lemma issure_cn_empty: "issure_cn [] = Inl StdOutOfRange"
proof -
  have f: "str_find [] ''CN='' 0 = npos"
    by (simp add: str_find_def occurs_at_def)
  have p: "size_t (to_int ((npos + 3) mod 2 ^ 64)) = 2"
    by (simp add: npos_def to_int_def size_t_def)
  show ?thesis
    unfolding issure_cn_def f Let_def p
    by (simp add: substr_def)
qed

text \<open>
  C8. The claim is that \<^verbatim>\<open>prepare\<close>, for every signing certificate, takes the issuer CN
  after the first \<open>CN=\<close> of the issuer name and throws "Failed to find ocsp responder."
  when the configuration has no OCSPConf for that CN. The code at a signing certificate
  whose issuer name \<open>O=SK,C=EE\<close> has no \<open>CN=\<close>: \<^verbatim>\<open>find\<close> returns npos, which line 100
  does not test, \<open>pos\<close> is 2, and \<^verbatim>\<open>prepare\<close> looks up \<open>SK\<close>, a part of the organization
  name; with a configuration that has an OCSPConf for \<open>SK\<close> it returns the client of that
  responder. At an empty issuer name \<^verbatim>\<open>substr\<close> throws \<^verbatim>\<open>std::out_of_range\<close>, also when
  the configuration has no OCSPConf at all.
\<close>

theorem prepare_issuer_without_CN:
  "getSigningCertificate (example_env_issuer ''O=SK,C=EE'')
       (example_sig132 (Some ''S0'') None None)
     = Inr ((example_x509 [48, 130])\<lparr>issuerName := ''O=SK,C=EE''\<rparr>)
   \<and> str_find ''O=SK,C=EE'' ''CN='' 0 = npos
   \<and> issure_cn ''O=SK,C=EE'' = Inr ''SK''
   \<and> fst (prepare (example_env_issuer ''O=SK,C=EE'') (example_conf_for ''SK'')
            (example_sig132 (Some ''S0'') None None) newSignatureValidator)
     = Inr \<lparr>ocsp_url = ''http://ocsp.example.org'', ocsp_skew = 300, ocsp_maxAge = 60,
            ocsp_certs = [example_x509 [48, 1]]\<rparr>
   \<and> fst (prepare (example_env_issuer []) (example_conf False False)
            (example_sig132 (Some ''S0'') None None) newSignatureValidator)
     = Inl StdOutOfRange"
proof -
  let ?s = "example_sig132 (Some ''S0'') None None"
  have g: "getSigningCertificate (example_env_issuer issuer) ?s
             = Inr ((example_x509 [48, 130])\<lparr>issuerName := issuer\<rparr>)" for issuer
    by (simp add: getSigningCertificate_def getSigningX509CertificateType_def bind_def
        example_sig132_def example_signatureType_def example_env_issuer_def)
  have "List.find (occurs_at ''O=SK,C=EE'' ''CN='') [0 ..< Suc (length ''O=SK,C=EE'')] = None"
    by (simp add: find_None_iff occurs_at_def)
  then have f: "str_find ''O=SK,C=EE'' ''CN='' 0 = npos"
    by (simp add: str_find_def)
  have l: "loadX509Stack (example_env_issuer issuer) p = Inr [example_x509 [48, 1]]" for issuer p
    by (simp add: example_env_issuer_def example_env_def)
  have a: "fst (prepare (example_env_issuer ''O=SK,C=EE'') (example_conf_for ''SK'') ?s
                  newSignatureValidator)
     = Inr \<lparr>ocsp_url = ''http://ocsp.example.org'', ocsp_skew = 300, ocsp_maxAge = 60,
            ocsp_certs = [example_x509 [48, 1]]\<rparr>"
    unfolding prepare_def g
    by (simp add: issure_cn_without_CN l Let_def example_conf_for_def)
  have b: "fst (prepare (example_env_issuer []) (example_conf False False) ?s
                  newSignatureValidator) = Inl StdOutOfRange"
    unfolding prepare_def g
    by (simp add: issure_cn_empty)
  from g [of "''O=SK,C=EE''"] f issure_cn_without_CN a b show ?thesis by blast
qed

subsection \<open>Signature::checkSignatureMethod\<close>

text \<open>
  C9. \<^verbatim>\<open>checkSignatureMethod\<close> throws "Unsupported SignedInfo signature method" if and
  only if the algorithm of the SignatureMethod of SignedInfo is none of
  \<^verbatim>\<open>URI_ID_RSA_SHA1\<close>, \<^verbatim>\<open>URI_ID_RSA_SHA224\<close> and \<^verbatim>\<open>URI_ID_RSA_SHA256\<close>, and returns
  normally if and only if it is one of them.
\<close>

theorem checkSignatureMethod_iff:
  "(checkSignatureMethod E s = throw UnsupportedSignatureMethod)
     = (signatureMethod (signedInfo (sign s))
          \<notin> {uRI_ID_RSA_SHA1 E, uRI_ID_RSA_SHA224 E, uRI_ID_RSA_SHA256 E})
   \<and> (checkSignatureMethod E s = Inr ())
     = (signatureMethod (signedInfo (sign s))
          \<in> {uRI_ID_RSA_SHA1 E, uRI_ID_RSA_SHA224 E, uRI_ID_RSA_SHA256 E})"
  by (simp add: checkSignatureMethod_def getSignatureMethodAlgorithmType_def throw_def Let_def)

text \<open>Instances: RSA-SHA256 passes, RSA-MD5 is refused.\<close>

theorem checkSignatureMethod_iff_witness:
  "checkSignatureMethod example_env (example_sig132 (Some ''S0'') None None) = Inr ()
   \<and> checkSignatureMethod example_env
       (withSignatureMethod ''http://www.w3.org/2001/04/xmldsig-more#rsa-md5''
          (example_sig132 (Some ''S0'') None None))
     = throw UnsupportedSignatureMethod"
  using checkSignatureMethod_iff [where E = example_env
      and s = "example_sig132 (Some ''S0'') None None"]
    checkSignatureMethod_iff [where E = example_env
      and s = "withSignatureMethod ''http://www.w3.org/2001/04/xmldsig-more#rsa-md5''
         (example_sig132 (Some ''S0'') None None)"]
  by (simp add: example_env_def example_sig132_def example_signatureType_def
      withSignatureMethod_def)

subsection \<open>The Id attribute\<close>

lemma checkQualifyingProperties_absent_Id:
  assumes "parse E xml_buf = Inr s" and "id_attr (sign s) = None"
  shows "checkQualifyingProperties s = Inl AbsentOptional"
proof -
  from parse_shape [OF assms(1)] obtain obj where
    o: "object (sign s) = [obj]" and
    d: "case dialect_of s of
          XAdES111Signature \<Rightarrow>
            qualifyingProperties obj = [] \<and> length (qualifyingProperties1 obj) = 1
        | XAdES132Signature \<Rightarrow>
            qualifyingProperties1 obj = [] \<and> length (qualifyingProperties obj) = 1"
    by auto
  show ?thesis
  proof (cases "dialect_of s")
    case XAdES111Signature
    with o d assms(2) show ?thesis
      by (simp add: checkQualifyingProperties_def checkQualifyingProperties111_def
          bind_def at_def get_def)
  next
    case XAdES132Signature
    with o d assms(2) show ?thesis
      by (simp add: checkQualifyingProperties_def checkQualifyingProperties132_def
          bind_def at_def get_def)
  qed
qed

text \<open>
  C10. For a signature that \<^verbatim>\<open>parse\<close> has returned, of either dialect, whose Id
  attribute is absent: \<^verbatim>\<open>checkQualifyingProperties\<close> dereferences the absent optional
  (in \<^verbatim>\<open>"#" + _sign->id().get()\<close>), and so does \<^verbatim>\<open>validateOffline\<close>, whose first step
  it is, for every store and container: no check of the Id runs before. The check
  that would throw "Signature element mandatory attribute 'Id' is missing",
  \<^verbatim>\<open>validateIdentifier\<close>, is not part of \<^verbatim>\<open>validateOffline\<close>.
\<close>

theorem absent_Id_dereferenced:
  assumes "parse E xml_buf = Inr s" and "id_attr (sign s) = None"
  shows "checkQualifyingProperties s = Inl AbsentOptional
         \<and> validateOffline E s store ci = (Inl AbsentOptional, ci)
         \<and> validateIdentifier s = throw IdMissing"
  using checkQualifyingProperties_absent_Id [OF assms] assms(2)
  by (simp add: validateOffline_def catchStackException_def validateIdentifier_def)

text \<open>Instances: the examples of both dialects without Id, as parsed.\<close>

theorem absent_Id_dereferenced_witness:
  "validateOffline (example_env_parsing (sign (example_sig111 None ''P'' None)))
     (example_sig111 None ''P'' None) (Some ()) 0 = (Inl AbsentOptional, 0)
   \<and> validateOffline (example_env_parsing (sign (example_sig132 None None None)))
     (example_sig132 None None None) (Some ()) 0 = (Inl AbsentOptional, 0)
   \<and> validateIdentifier (example_sig132 None None None) = throw IdMissing"
proof -
  have a: "id_attr (sign (example_sig111 None ''P'' None)) = None"
    by (simp add: example_sig111_def example_signatureType_def)
  have b: "id_attr (sign (example_sig132 None None None)) = None"
    by (simp add: example_sig132_def example_signatureType_def)
  from absent_Id_dereferenced [OF example_parse111 a, where store = "Some ()" and ci = 0]
    absent_Id_dereferenced [OF example_parse132 b, where store = "Some ()" and ci = 0]
  show ?thesis by simp
qed

end
